theory Spec2Isabelle
  imports Main "HOL-Library.AList"
begin

section \<open>Documents and Python values\<close>

text \<open>
  The package runs on Python 3: \<^verbatim>\<open>biothings/web/api/helper.py\<close> imports
  \<^verbatim>\<open>urllib.parse\<close>, and \<^verbatim>\<open>biothings/utils/backend.py\<close> writes
  \<^verbatim>\<open>list(d.items())\<close> and calls \<^verbatim>\<open>print\<close> as a function. So a dictionary has
  \<^verbatim>\<open>items\<close> but no \<^verbatim>\<open>iteritems\<close>, and \<^verbatim>\<open>values()\<close> gives a view, not a
  list.

  A document is a JSON object. Values are the JSON values with integer numbers
  (floating point numbers are left out) and the ObjectIds of the document database. A
  dictionary is an association list that is
  read with \<open>map_of\<close> and written with \<open>AList.update\<close>, so a key that is already
  there keeps its place and a new key goes to the end. Two association lists denote the
  same dictionary when \<open>map_of\<close> agrees on them. Values are compared as they are
  written, so a key \<open>True\<close> is not the key \<open>1\<close>; the one place where the module
  compares a value with integers, the species set, follows Python there.
\<close>

datatype pyval =
    PNone
  | PBool bool
  | PInt int
  | PStr string
  | PList "pyval list"
  | PDict "(string \<times> pyval) list"
  | PObjectId nat

type_synonym doc = "(string \<times> pyval) list"

text \<open>The exceptions the module and the stores under it raise.\<close>

datatype exn =
    KeyError
  | IndexError
  | TypeError
  | AttributeError
  | ValueError
  | ResourceNotFound
  | IndexMissingException
  | BulkWriteError
  | WriteError
  | InvalidOperation
  | OtherException string

text \<open>Python's truth value of an object: \<^verbatim>\<open>if x:\<close>.\<close>

fun truthy :: "pyval \<Rightarrow> bool" where
  "truthy PNone = False"
| "truthy (PBool b) = b"
| "truthy (PInt n) = (n \<noteq> 0)"
| "truthy (PStr s) = (s \<noteq> [])"
| "truthy (PList xs) = (xs \<noteq> [])"
| "truthy (PDict d) = (d \<noteq> [])"
| "truthy (PObjectId n) = True"

text \<open>\<^verbatim>\<open>d.update(e)\<close>: every item of \<open>e\<close> is written into \<open>d\<close>.\<close>

definition dict_update :: "('k \<times> 'v) list \<Rightarrow> ('k \<times> 'v) list \<Rightarrow> ('k \<times> 'v) list" where
  "dict_update d e = fold (\<lambda>(k, v). AList.update k v) e d"

text \<open>\<^verbatim>\<open>dict(pairs)\<close>: a later pair overwrites an earlier one with the same key.\<close>

definition py_dict :: "('k \<times> 'v) list \<Rightarrow> ('k \<times> 'v) list" where
  "py_dict pairs = dict_update [] pairs"

section \<open>DocCouchDBBackend: the homologene trimming\<close>

text \<open>
  \<^verbatim>\<open>g[0]\<close> for an element \<open>g\<close> of the genes list. A list and a string give their
  first item and raise IndexError when empty; a dictionary has string keys only, so
  the key \<open>0\<close> is missing; the other values cannot be subscripted.
\<close>

fun item0 :: "pyval \<Rightarrow> exn + pyval" where
  "item0 (PList (x # xs)) = Inr x"
| "item0 (PList []) = Inl IndexError"
| "item0 (PStr (c # cs)) = Inr (PStr [c])"
| "item0 (PStr []) = Inl IndexError"
| "item0 (PDict d) = Inl KeyError"
| "item0 PNone = Inl TypeError"
| "item0 (PBool b) = Inl TypeError"
| "item0 (PInt n) = Inl TypeError"
| "item0 (PObjectId n) = Inl TypeError"

text \<open>
  \<^verbatim>\<open>x in species_set\<close>, where \<open>species_set = set(species_li)\<close> is a set of taxids
  (integers). A list and a dictionary cannot be hashed; \<open>True\<close> and \<open>False\<close> are the
  integers 1 and 0.
\<close>

fun in_species_set :: "int list \<Rightarrow> pyval \<Rightarrow> exn + bool" where
  "in_species_set species_li (PInt n) = Inr (n \<in> set species_li)"
| "in_species_set species_li (PBool b) = Inr ((if b then 1 else 0) \<in> set species_li)"
| "in_species_set species_li (PStr s) = Inr False"
| "in_species_set species_li PNone = Inr False"
| "in_species_set species_li (PList xs) = Inl TypeError"
| "in_species_set species_li (PDict d) = Inl TypeError"
| "in_species_set species_li (PObjectId n) = Inr False"

text \<open>The condition of the comprehension: \<^verbatim>\<open>g[0] in species_set\<close>.\<close>

definition keep_gene :: "int list \<Rightarrow> pyval \<Rightarrow> exn + bool" where
  "keep_gene species_li g =
     (case item0 g of Inl e \<Rightarrow> Inl e | Inr x \<Rightarrow> in_species_set species_li x)"

text \<open>\<^verbatim>\<open>[g for g in _genes if g[0] in species_set]\<close>, over the items of \<open>_genes\<close>.\<close>

fun genes_filtered :: "int list \<Rightarrow> pyval list \<Rightarrow> exn + pyval list" where
  "genes_filtered species_li [] = Inr []"
| "genes_filtered species_li (g # gs) =
     (case keep_gene species_li g of
        Inl e \<Rightarrow> Inl e
      | Inr keep \<Rightarrow>
          (case genes_filtered species_li gs of
             Inl e \<Rightarrow> Inl e
           | Inr rest \<Rightarrow> Inr (if keep then g # rest else rest)))"

text \<open>
  The items a \<^verbatim>\<open>for\<close> loop draws from a value: the elements of a list, the characters
  of a string, the keys of a dictionary; the other values are not iterable.
\<close>

fun py_iter :: "pyval \<Rightarrow> exn + pyval list" where
  "py_iter (PList xs) = Inr xs"
| "py_iter (PStr s) = Inr (map (\<lambda>c. PStr [c]) s)"
| "py_iter (PDict d) = Inr (map (\<lambda>kv. PStr (fst kv)) d)"
| "py_iter PNone = Inl TypeError"
| "py_iter (PBool b) = Inl TypeError"
| "py_iter (PInt n) = Inl TypeError"
| "py_iter (PObjectId n) = Inl TypeError"

text \<open>
  The body of the loop of \<^verbatim>\<open>_homologene_trimming\<close> for one cached document. The
  result is \<open>None\<close> when the body assigns nothing, and the rewritten document
  otherwise. \<^verbatim>\<open>hgene.get\<close> exists on a dictionary only.
\<close>

definition trimming_body :: "int list \<Rightarrow> doc \<Rightarrow> exn + doc option" where
  "trimming_body species_li gdoc =
     (case map_of gdoc ''homologene'' of
        None \<Rightarrow> Inr None
      | Some hgene \<Rightarrow>
          if \<not> truthy hgene then Inr None
          else
            (case hgene of
               PDict h \<Rightarrow>
                 (case map_of h ''genes'' of
                    None \<Rightarrow> Inr None
                  | Some genes \<Rightarrow>
                      if \<not> truthy genes then Inr None
                      else
                        (case py_iter genes of
                           Inl e \<Rightarrow> Inl e
                         | Inr gs \<Rightarrow>
                             (case genes_filtered species_li gs of
                                Inl e \<Rightarrow> Inl e
                              | Inr filtered \<Rightarrow>
                                  Inr (Some (AList.update ''homologene''
                                    (PDict (AList.update ''genes'' (PList filtered) h)) gdoc)))))
             | _ \<Rightarrow> Inl AttributeError))"

text \<open>
  The loop over the items that the iteration hands out; \<open>cache\<close> is the dictionary
  being written. An exception leaves the loop and the method.
\<close>

fun trimming_loop ::
  "int list \<Rightarrow> (string \<times> doc) list \<Rightarrow> (string \<times> doc) list \<Rightarrow> exn + (string \<times> doc) list" where
  "trimming_loop species_li [] cache = Inr cache"
| "trimming_loop species_li ((gid, gdoc) # items) cache =
     (case trimming_body species_li gdoc of
        Inl e \<Rightarrow> Inl e
      | Inr None \<Rightarrow> trimming_loop species_li items cache
      | Inr (Some gdoc') \<Rightarrow> trimming_loop species_li items (AList.update gid gdoc' cache))"

text \<open>
  \<^verbatim>\<open>self._doc_cache.iteritems()\<close>: a Python 3 dictionary has no attribute
  \<^verbatim>\<open>iteritems\<close>, so the call raises AttributeError and hands out no item.
\<close>

definition iteritems :: "('k \<times> 'v) list \<Rightarrow> exn + ('k \<times> 'v) list" where
  "iteritems d = Inl AttributeError"

text \<open>
  \<^verbatim>\<open>_homologene_trimming\<close>: \<^verbatim>\<open>if self._doc_cache:\<close> and, inside, the loop
  \<^verbatim>\<open>for gid, gdoc in self._doc_cache.iteritems():\<close>.
\<close>

definition homologene_trimming ::
  "int list \<Rightarrow> (string \<times> doc) list \<Rightarrow> exn + (string \<times> doc) list" where
  "homologene_trimming species_li doc_cache =
     (if doc_cache \<noteq> []
      then (case iteritems doc_cache of
              Inl e \<Rightarrow> Inl e
            | Inr items \<Rightarrow> trimming_loop species_li items doc_cache)
      else Inr doc_cache)"

section \<open>Slices and ranges\<close>

text \<open>
  \<^verbatim>\<open>range(0, stop, step)\<close> for a positive step: the indices 0, step, 2 step, ... below
  \<open>stop\<close>.
\<close>

function range_from :: "nat \<Rightarrow> nat \<Rightarrow> nat \<Rightarrow> nat list" where
  "range_from i stop step =
     (if step = 0 \<or> stop \<le> i then [] else i # range_from (i + step) stop step)"
  by pat_completeness auto
termination
  by (relation "measure (\<lambda>(i, stop, step). stop - i)") auto

declare range_from.simps [simp del]

text \<open>
  \<^verbatim>\<open>range(0, stop, step)\<close> for any integer step: a zero step raises ValueError, a
  negative step gives the empty list (the start is not above the stop).
\<close>

definition py_range :: "nat \<Rightarrow> int \<Rightarrow> exn + nat list" where
  "py_range stop step =
     (if step = 0 then Inl ValueError
      else if step < 0 then Inr []
      else Inr (range_from 0 stop (nat step)))"

text \<open>\<^verbatim>\<open>xs[i:i + step]\<close> for \<open>i \<ge> 0\<close> and a positive step.\<close>

definition slice :: "'a list \<Rightarrow> nat \<Rightarrow> nat \<Rightarrow> 'a list" where
  "slice xs i step = take step (drop i xs)"

text \<open>A list and a dictionary cannot be a key of a Python dictionary or a member of a set.\<close>

fun hashable :: "pyval \<Rightarrow> bool" where
  "hashable (PList xs) = False"
| "hashable (PDict d) = False"
| "hashable v = True"

section \<open>DocMemoryBackend\<close>

record memory_backend =
  target_dict :: "(pyval \<times> doc) list"
  target_name :: string

text \<open>\<^verbatim>\<open>for doc in doc_li: self.target_dict[doc['_id']] = doc\<close>\<close>

fun DocMemoryBackend_insert :: "memory_backend \<Rightarrow> doc list \<Rightarrow> exn + memory_backend" where
  "DocMemoryBackend_insert b [] = Inr b"
| "DocMemoryBackend_insert b (d # doc_li) =
     (case map_of d ''_id'' of
        None \<Rightarrow> Inl KeyError
      | Some i \<Rightarrow>
          if \<not> hashable i then Inl TypeError
          else DocMemoryBackend_insert
                 (b\<lparr>target_dict := AList.update i d (target_dict b)\<rparr>) doc_li)"

definition DocMemoryBackend_update ::
  "memory_backend \<Rightarrow> pyval \<Rightarrow> doc \<Rightarrow> exn + memory_backend" where
  "DocMemoryBackend_update b i extra_doc =
     (if \<not> hashable i then Inl TypeError
      else
        (case map_of (target_dict b) i of
           None \<Rightarrow> Inr b
         | Some current_doc \<Rightarrow>
             if current_doc \<noteq> []
             then Inr (b\<lparr>target_dict :=
                    AList.update i (dict_update current_doc extra_doc) (target_dict b)\<rparr>)
             else Inr b))"

definition DocMemoryBackend_drop :: "memory_backend \<Rightarrow> exn + memory_backend" where
  "DocMemoryBackend_drop b = Inr (b\<lparr>target_dict := []\<rparr>)"

definition DocMemoryBackend_get_from_id :: "memory_backend \<Rightarrow> pyval \<Rightarrow> exn + doc" where
  "DocMemoryBackend_get_from_id b i =
     (if \<not> hashable i then Inl TypeError
      else (case map_of (target_dict b) i of None \<Rightarrow> Inl KeyError | Some d \<Rightarrow> Inr d))"

section \<open>The document database under DocMongoBackend\<close>

text \<open>
  The collection handle of the driver (pymongo) is outside the repository. It is
  modelled as the list of its documents in natural order, with the operations the
  backend calls. Field names are top-level names (dotted paths into nested documents
  are left out). \<open>oid_counter\<close> numbers the ObjectIds the driver gives to documents
  that come without an \<open>_id\<close>.
\<close>

record collection =
  docs :: "doc list"
  oid_counter :: nat

definition has_id :: "pyval \<Rightarrow> doc \<Rightarrow> bool" where
  "has_id i d = (map_of d ''_id'' = Some i)"

text \<open>\<^verbatim>\<open>find({'_id': {'$in': ids}})\<close>: the documents whose \<open>_id\<close> is one of \<open>ids\<close>.\<close>

definition find_in :: "collection \<Rightarrow> pyval list \<Rightarrow> doc list" where
  "find_in c ids =
     filter (\<lambda>d. case map_of d ''_id'' of None \<Rightarrow> False | Some i \<Rightarrow> i \<in> set ids) (docs c)"

text \<open>\<^verbatim>\<open>find_one({'_id': id})\<close>: the first such document, or nothing.\<close>

definition find_one :: "collection \<Rightarrow> pyval \<Rightarrow> doc option" where
  "find_one c i = List.find (has_id i) (docs c)"

text \<open>\<^verbatim>\<open>remove({'_id': {'$in': ids}})\<close>\<close>

definition remove_in :: "collection \<Rightarrow> pyval list \<Rightarrow> collection" where
  "remove_in c ids =
     c\<lparr>docs :=
       filter (\<lambda>d. case map_of d ''_id'' of None \<Rightarrow> True | Some i \<Rightarrow> i \<notin> set ids) (docs c)\<rparr>"

text \<open>
  \<^verbatim>\<open>insert_many(documents)\<close>, ordered: a document without \<open>_id\<close> gets a new
  ObjectId; the first document whose \<open>_id\<close> is already in the collection stops the
  insert with BulkWriteError, the documents before it stay inserted. The result is the
  exception, if any, the collection afterwards and the ids of the documents sent.
\<close>

fun insert_ordered ::
  "doc list \<Rightarrow> collection \<Rightarrow> pyval list \<Rightarrow> exn option \<times> collection \<times> pyval list" where
  "insert_ordered [] c ids = (None, c, ids)"
| "insert_ordered (d # ds) c ids =
     (case (case map_of d ''_id'' of
              None \<Rightarrow> (PObjectId (oid_counter c),
                        AList.update ''_id'' (PObjectId (oid_counter c)) d,
                        c\<lparr>oid_counter := Suc (oid_counter c)\<rparr>)
            | Some i \<Rightarrow> (i, d, c)) of
        (i, d', c') \<Rightarrow>
          if find_one c' i \<noteq> None then (Some BulkWriteError, c', ids @ [i])
          else insert_ordered ds (c'\<lparr>docs := docs c' @ [d']\<rparr>) (ids @ [i]))"

definition insert_many :: "collection \<Rightarrow> doc list \<Rightarrow> (exn + pyval list) \<times> collection" where
  "insert_many c documents =
     (if documents = [] then (Inl TypeError, c)
      else
        (case insert_ordered documents c [] of
           (None, c', ids) \<Rightarrow> (Inr ids, c')
         | (Some e, c', ids) \<Rightarrow> (Inl e, c')))"

text \<open>Removing the fields named by \<open>$unset\<close> from a document.\<close>

definition unset_fields :: "string list \<Rightarrow> doc \<Rightarrow> doc" where
  "unset_fields ks d = filter (\<lambda>kv. fst kv \<notin> set ks) d"

text \<open>
  The operators of an update document: \<open>$set\<close> writes its fields, \<open>$unset\<close>
  removes its fields. A field in both is a conflict and any other operator is unknown
  to the model: the store answers each with a WriteError.
\<close>

definition set_fields :: "(string \<times> doc) list \<Rightarrow> doc" where
  "set_fields updates = (case map_of updates ''$set'' of None \<Rightarrow> [] | Some x \<Rightarrow> x)"

definition unset_names :: "(string \<times> doc) list \<Rightarrow> string list" where
  "unset_names updates = (case map_of updates ''$unset'' of None \<Rightarrow> [] | Some x \<Rightarrow> map fst x)"

definition operators_ok :: "(string \<times> doc) list \<Rightarrow> bool" where
  "operators_ok updates =
     (list_all (\<lambda>k. k = ''$set'' \<or> k = ''$unset'') (map fst updates)
      \<and> list_all (\<lambda>k. k \<notin> set (unset_names updates)) (map fst (set_fields updates)))"

definition apply_operators :: "(string \<times> doc) list \<Rightarrow> doc \<Rightarrow> doc" where
  "apply_operators updates d =
     unset_fields (unset_names updates) (dict_update d (set_fields updates))"

text \<open>The first document with the given \<open>_id\<close> is replaced.\<close>

fun replace_first :: "pyval \<Rightarrow> doc \<Rightarrow> doc list \<Rightarrow> doc list" where
  "replace_first i d' [] = []"
| "replace_first i d' (d # ds) = (if has_id i d then d' # ds else d # replace_first i d' ds)"

text \<open>
  \<^verbatim>\<open>update_one({'_id': id}, updates, upsert=False)\<close>. The driver refuses an empty
  update document with ValueError before anything is sent
  (\<^verbatim>\<open>validate_ok_for_update\<close>). Without a match nothing is written. An update that
  would change or remove \<open>_id\<close> is a WriteError. The result is the collection and
  \<open>modified_count\<close>, which counts the matched document only when the update changed
  it.
\<close>

definition update_one ::
  "collection \<Rightarrow> pyval \<Rightarrow> (string \<times> doc) list \<Rightarrow> exn + (collection \<times> nat)" where
  "update_one c i updates =
     (if updates = [] then Inl ValueError
      else if \<not> operators_ok updates then Inl WriteError
      else
        (case find_one c i of
           None \<Rightarrow> Inr (c, 0)
         | Some d \<Rightarrow>
             (let d' = apply_operators updates d
              in if map_of d' ''_id'' \<noteq> Some i then Inl WriteError
                 else Inr (c\<lparr>docs := replace_first i d' (docs c)\<rparr>,
                           if d' = d then 0 else 1))))"

text \<open>
  The ordered bulk operation of \<^verbatim>\<open>update\<close>: one \<open>find({'_id': id})\<close> with
  \<open>update({'$set': doc})\<close> per document, with \<open>upsert()\<close> when asked. Executing
  no operation at all is an InvalidOperation. The counters are \<open>nMatched\<close> and
  \<open>nUpserted\<close>.
\<close>

fun bulk_execute ::
  "bool \<Rightarrow> (pyval \<times> doc) list \<Rightarrow> collection \<Rightarrow> nat \<Rightarrow> nat \<Rightarrow> collection \<times> nat \<times> nat" where
  "bulk_execute upsert [] c m u = (c, m, u)"
| "bulk_execute upsert ((i, d) # ops) c m u =
     (case find_one c i of
        Some cur \<Rightarrow>
          bulk_execute upsert ops
            (c\<lparr>docs := replace_first i (dict_update cur d) (docs c)\<rparr>) (Suc m) u
      | None \<Rightarrow>
          if upsert
          then bulk_execute upsert ops
                 (c\<lparr>docs := docs c @ [dict_update [(''_id'', i)] d]\<rparr>) m (Suc u)
          else bulk_execute upsert ops c m u)"

section \<open>DocMongoBackend\<close>

text \<open>
  The backend holds the collection handle; \<open>err_file\<close> is the content of the file
  \<^verbatim>\<open>err\<close> that \<^verbatim>\<open>insert\<close> pickles an exception into (writing the file is taken to
  succeed). Every exception of the model is an instance of Python's \<open>Exception\<close>, so
  \<^verbatim>\<open>except Exception\<close> catches each of them.
\<close>

record mongo_backend =
  target_collection :: collection
  err_file :: "exn option"

text \<open>
  \<^verbatim>\<open>try: res = insert_many(documents=docs); return len(res.inserted_ids)\<close>
  \<^verbatim>\<open>except Exception as e: pickle.dump(e, open("err", "wb"))\<close>.
  The result is \<open>Inl\<close> for an exception that leaves the method, and otherwise the
  returned value (\<open>None\<close> when the method falls off its end) with the backend
  afterwards.
\<close>

definition DocMongoBackend_insert ::
  "mongo_backend \<Rightarrow> doc list \<Rightarrow> exn + (nat option \<times> mongo_backend)" where
  "DocMongoBackend_insert b ds =
     (case insert_many (target_collection b) ds of
        (Inr inserted_ids, c') \<Rightarrow> Inr (Some (length inserted_ids), b\<lparr>target_collection := c'\<rparr>)
      | (Inl e, c') \<Rightarrow> Inr (None, b\<lparr>target_collection := c', err_file := Some e\<rparr>))"

text \<open>The loop of \<^verbatim>\<open>update\<close> that fills the bulk operation: \<open>doc["_id"]\<close> must exist.\<close>

fun bulk_ops :: "doc list \<Rightarrow> exn + (pyval \<times> doc) list" where
  "bulk_ops [] = Inr []"
| "bulk_ops (d # ds) =
     (case map_of d ''_id'' of
        None \<Rightarrow> Inl KeyError
      | Some i \<Rightarrow> (case bulk_ops ds of Inl e \<Rightarrow> Inl e | Inr ops \<Rightarrow> Inr ((i, d) # ops)))"

definition DocMongoBackend_update ::
  "collection \<Rightarrow> doc list \<Rightarrow> bool \<Rightarrow> exn + (collection \<times> nat)" where
  "DocMongoBackend_update c ds upsert =
     (case bulk_ops ds of
        Inl e \<Rightarrow> Inl e
      | Inr ops \<Rightarrow>
          if ops = [] then Inl InvalidOperation
          else (case bulk_execute upsert ops c 0 0 of
                  (c', nMatched, nUpserted) \<Rightarrow> Inr (c', nMatched + nUpserted)))"

text \<open>
  A diff as \<^verbatim>\<open>diff.diff_doc\<close> returns it: a dictionary with the keys \<open>_id\<close>,
  \<open>add\<close>, \<open>update\<close> (dictionaries of fields) and \<open>delete\<close> (a list of field
  names); a field is \<open>None\<close> when the key is missing.
\<close>

record diff =
  diff_id :: "pyval option"
  diff_add :: "doc option"
  diff_update :: "doc option"
  diff_delete :: "string list option"

text \<open>The update document \<open>_updates\<close> that \<^verbatim>\<open>update_diff\<close> builds.\<close>

definition diff_updates :: "diff \<Rightarrow> doc \<Rightarrow> (string \<times> doc) list" where
  "diff_updates df extra =
     (let add_d = py_dict ((case diff_add df of None \<Rightarrow> [] | Some a \<Rightarrow> a)
                           @ (case diff_update df of None \<Rightarrow> [] | Some u \<Rightarrow> u));
          updates1 =
            (if add_d \<noteq> [] \<or> extra \<noteq> []
             then AList.update ''$set'' (if extra \<noteq> [] then dict_update add_d extra else add_d) []
             else []);
          updates2 =
            (case diff_delete df of
               None \<Rightarrow> updates1
             | Some del \<Rightarrow>
                 if del \<noteq> []
                 then AList.update ''$unset'' (py_dict (map (\<lambda>x. (x, PInt 1)) del)) updates1
                 else updates1)
      in updates2)"

text \<open>
  \<^verbatim>\<open>res = update_one({'_id': diff['_id']}, _updates, upsert=False)\<close>
  \<^verbatim>\<open>return res.modified_count\<close>
\<close>

definition DocMongoBackend_update_diff ::
  "collection \<Rightarrow> diff \<Rightarrow> doc \<Rightarrow> exn + (collection \<times> nat)" where
  "DocMongoBackend_update_diff c df extra =
     (let updates = diff_updates df extra
      in case diff_id df of None \<Rightarrow> Inl KeyError | Some i \<Rightarrow> update_one c i updates)"

definition DocMongoBackend_drop :: "collection \<Rightarrow> exn + collection" where
  "DocMongoBackend_drop c = Inr (c\<lparr>docs := []\<rparr>)"

definition DocMongoBackend_get_from_id :: "collection \<Rightarrow> pyval \<Rightarrow> doc option" where
  "DocMongoBackend_get_from_id c i = find_one c i"

text \<open>What \<^verbatim>\<open>mget_from_ids\<close> returns: an iterator over the list or the list itself.\<close>

datatype 'a pyseq = Iterator "'a list" | Materialized "'a list"

text \<open>\<^verbatim>\<open>dict([(d['_id'], d) for d in cur])\<close>\<close>

fun id_dict :: "doc list \<Rightarrow> (pyval \<times> doc) list \<Rightarrow> exn + (pyval \<times> doc) list" where
  "id_dict [] acc = Inr acc"
| "id_dict (d # cur) acc =
     (case map_of d ''_id'' of
        None \<Rightarrow> Inl KeyError
      | Some i \<Rightarrow> if \<not> hashable i then Inl TypeError else id_dict cur (AList.update i d acc))"

text \<open>\<^verbatim>\<open>[_d[_id] for _id in ids if _id in _d]\<close>\<close>

fun pick_docs :: "(pyval \<times> doc) list \<Rightarrow> pyval list \<Rightarrow> exn + doc list" where
  "pick_docs dd [] = Inr []"
| "pick_docs dd (i # ids) =
     (if \<not> hashable i then Inl TypeError
      else
        (case pick_docs dd ids of
           Inl e \<Rightarrow> Inl e
         | Inr rest \<Rightarrow> (case map_of dd i of None \<Rightarrow> Inr rest | Some d \<Rightarrow> Inr (d # rest))))"

definition DocMongoBackend_mget_from_ids ::
  "collection \<Rightarrow> pyval list \<Rightarrow> bool \<Rightarrow> exn + doc pyseq" where
  "DocMongoBackend_mget_from_ids c ids asiter =
     (let cur = find_in c ids
      in case id_dict cur [] of
           Inl e \<Rightarrow> Inl e
         | Inr dd \<Rightarrow>
             (case pick_docs dd ids of
                Inl e \<Rightarrow> Inl e
              | Inr doc_li \<Rightarrow> Inr (if asiter then Iterator doc_li else Materialized doc_li)))"

text \<open>
  The loop of \<^verbatim>\<open>count_from_ids\<close> over the indices of the range. Next to
  \<open>total_cnt\<close> it records the id lists of the queries it sends, in order.
\<close>

fun count_loop ::
  "collection \<Rightarrow> pyval list \<Rightarrow> nat \<Rightarrow> nat list \<Rightarrow> nat \<times> pyval list list \<Rightarrow> nat \<times> pyval list list" where
  "count_loop c ids step [] acc = acc"
| "count_loop c ids step (i # is) (total_cnt, queries) =
     (let ids' = slice ids i step;
          cnt = length (find_in c ids')
      in count_loop c ids step is (total_cnt + cnt, queries @ [ids']))"

definition count_from_ids_queries ::
  "collection \<Rightarrow> pyval list \<Rightarrow> int \<Rightarrow> exn + (nat \<times> pyval list list)" where
  "count_from_ids_queries c ids step =
     (case py_range (length ids) step of
        Inl e \<Rightarrow> Inl e
      | Inr is \<Rightarrow> Inr (count_loop c ids (nat step) is (0, [])))"

definition DocMongoBackend_count_from_ids :: "collection \<Rightarrow> pyval list \<Rightarrow> int \<Rightarrow> exn + nat" where
  "DocMongoBackend_count_from_ids c ids step =
     (case count_from_ids_queries c ids step of Inl e \<Rightarrow> Inl e | Inr r \<Rightarrow> Inr (fst r))"

text \<open>The loop of \<^verbatim>\<open>remove_from_ids\<close>, with the id lists of the removals it sends.\<close>

fun remove_loop ::
  "pyval list \<Rightarrow> nat \<Rightarrow> nat list \<Rightarrow> collection \<times> pyval list list \<Rightarrow> collection \<times> pyval list list" where
  "remove_loop ids step [] acc = acc"
| "remove_loop ids step (i # is) (c, queries) =
     (let ids' = slice ids i step
      in remove_loop ids step is (remove_in c ids', queries @ [ids']))"

definition remove_from_ids_queries ::
  "collection \<Rightarrow> pyval list \<Rightarrow> int \<Rightarrow> exn + (collection \<times> pyval list list)" where
  "remove_from_ids_queries c ids step =
     (case py_range (length ids) step of
        Inl e \<Rightarrow> Inl e
      | Inr is \<Rightarrow> Inr (remove_loop ids (nat step) is (c, [])))"

definition DocMongoBackend_remove_from_ids ::
  "collection \<Rightarrow> pyval list \<Rightarrow> int \<Rightarrow> exn + collection" where
  "DocMongoBackend_remove_from_ids c ids step =
     (case remove_from_ids_queries c ids step of Inl e \<Rightarrow> Inl e | Inr r \<Rightarrow> Inr (fst r))"

section \<open>DocESBackend\<close>

text \<open>
  The connection of the search engine's client is outside the repository. What
  \<^verbatim>\<open>drop\<close> needs of it is which type mappings exist: \<open>get_mapping\<close> raises
  IndexMissingException for a mapping that is not there, \<open>delete_mapping\<close> removes one.
\<close>

record es_conn =
  mappings :: "(string \<times> string) list"

definition get_mapping :: "es_conn \<Rightarrow> string \<Rightarrow> string \<Rightarrow> exn + unit" where
  "get_mapping cn index_type index_name =
     (if (index_name, index_type) \<in> set (mappings cn) then Inr () else Inl IndexMissingException)"

definition delete_mapping :: "es_conn \<Rightarrow> string \<Rightarrow> string \<Rightarrow> es_conn" where
  "delete_mapping cn index_name index_type =
     cn\<lparr>mappings := removeAll (index_name, index_type) (mappings cn)\<rparr>"

text \<open>The arguments \<^verbatim>\<open>query\<close> hands to \<^verbatim>\<open>doc_feeder\<close>.\<close>

record feeder_args =
  fa_query :: pyval
  fa_verbose :: bool
  fa_step :: int
  fa_scroll :: string
  fa_only_source :: bool

text \<open>
  The class ESIndexer (\<^verbatim>\<open>biothings.utils.es\<close>) is not among the sources. Its
  \<^verbatim>\<open>doc_feeder\<close> is a parameter: for each argument record, the exception the call
  raises or the sequence it returns. \<open>index_docs\<close> are the documents of the index and
  \<open>bulk_queue\<close> the partial updates waiting for the next flush.
\<close>

record esindexer =
  conn :: es_conn
  ES_INDEX_NAME :: string
  ES_INDEX_TYPE :: string
  doc_feeder :: "feeder_args \<Rightarrow> exn + doc list"
  index_docs :: "(pyval \<times> doc) list"
  bulk_queue :: "(pyval \<times> doc) list"

text \<open>
  Modelled from the spec: \<^verbatim>\<open>ESIndexer.update(id, extra_doc, bulk=True)\<close> is missing
  from the sources. The spec has it as a partial update expressed as a deferred
  (bulk-queued) operation, not guaranteed visible until a subsequent flush or refresh.
\<close>

definition ESIndexer_update_bulk :: "esindexer \<Rightarrow> pyval \<Rightarrow> doc \<Rightarrow> exn + esindexer" where
  "ESIndexer_update_bulk ix i extra_doc =
     Inr (ix\<lparr>bulk_queue := bulk_queue ix @ [(i, extra_doc)]\<rparr>)"

text \<open>
  Modelled from the spec: \<^verbatim>\<open>ESIndexer.get(id)\<close> is missing from the sources. The
  spec has the fetch by id of this backend return a nullable result.
\<close>

definition ESIndexer_get :: "esindexer \<Rightarrow> pyval \<Rightarrow> doc option" where
  "ESIndexer_get ix i = map_of (index_docs ix) i"

text \<open>
  Modelled from the spec: the flush that makes the queued partial updates visible is
  missing from the sources. By the spec an update merges the patch into the existing
  document and never creates a document that does not exist.
\<close>

fun flush_queue :: "(pyval \<times> doc) list \<Rightarrow> (pyval \<times> doc) list \<Rightarrow> (pyval \<times> doc) list" where
  "flush_queue [] ds = ds"
| "flush_queue ((i, extra_doc) # q) ds =
     (case map_of ds i of
        None \<Rightarrow> flush_queue q ds
      | Some d \<Rightarrow> flush_queue q (AList.update i (dict_update d extra_doc) ds))"

definition ESIndexer_flush :: "esindexer \<Rightarrow> esindexer" where
  "ESIndexer_flush ix = ix\<lparr>index_docs := flush_queue (bulk_queue ix) (index_docs ix), bulk_queue := []\<rparr>"

definition DocESBackend_update :: "esindexer \<Rightarrow> pyval \<Rightarrow> doc \<Rightarrow> exn + esindexer" where
  "DocESBackend_update target_esidxer i extra_doc = ESIndexer_update_bulk target_esidxer i extra_doc"

definition DocESBackend_get_from_id :: "esindexer \<Rightarrow> pyval \<Rightarrow> doc option" where
  "DocESBackend_get_from_id target_esidxer i = ESIndexer_get target_esidxer i"

text \<open>
  \<^verbatim>\<open>try: conn.get_mapping(index_type, index_name)\<close>
  \<^verbatim>\<open>except IndexMissingException: return\<close>
  \<^verbatim>\<open>return conn.delete_mapping(index_name, index_type)\<close>
\<close>

definition DocESBackend_drop :: "esindexer \<Rightarrow> exn + esindexer" where
  "DocESBackend_drop target_esidxer =
     (case get_mapping (conn target_esidxer) (ES_INDEX_TYPE target_esidxer)
             (ES_INDEX_NAME target_esidxer) of
        Inl e \<Rightarrow> if e = IndexMissingException then Inr target_esidxer else Inl e
      | Inr u \<Rightarrow>
          Inr (target_esidxer\<lparr>conn :=
            delete_mapping (conn target_esidxer) (ES_INDEX_NAME target_esidxer)
              (ES_INDEX_TYPE target_esidxer)\<rparr>))"

text \<open>
  \<^verbatim>\<open>try: return self.target_esidxer.doc_feeder(...)\<close>
  \<^verbatim>\<open>except Exception as e: pass\<close>
  The result is \<open>Inl\<close> for an exception that leaves the method; \<open>Inr None\<close> is the
  method falling off its end.
\<close>

definition DocESBackend_query :: "esindexer \<Rightarrow> feeder_args \<Rightarrow> exn + doc list option" where
  "DocESBackend_query target_esidxer args =
     (case doc_feeder target_esidxer args of
        Inl e \<Rightarrow> Inr None
      | Inr feeder \<Rightarrow> Inr (Some feeder))"

section \<open>DocCouchDBBackend\<close>

text \<open>
  The server and the database handle of the store's client are outside the
  repository. A database is the list of its rows (id and document) as the view
  \<open>_all_docs\<close> lists them; a server maps names to databases. The revisions of the
  store (the field \<open>_rev\<close> that it rewrites on every write) are left out, so a bulk
  update always writes a document that has a string \<open>_id\<close>. \<open>uuid_counter\<close> numbers
  the ids the store gives to documents that come without one.
\<close>

record couch_db =
  rows :: "(string \<times> doc) list"
  uuid_counter :: nat

definition uuid :: "nat \<Rightarrow> string" where
  "uuid n = ''uuid'' @ replicate n (CHR ''+'')"

text \<open>One document of a bulk update: the database afterwards and whether it was stored.\<close>

fun write_doc :: "pyval option \<Rightarrow> doc \<Rightarrow> couch_db \<Rightarrow> couch_db \<times> bool" where
  "write_doc (Some (PStr i)) d db = (db\<lparr>rows := AList.update i d (rows db)\<rparr>, True)"
| "write_doc None d db =
     (db\<lparr>rows := AList.update (uuid (uuid_counter db))
               (AList.update ''_id'' (PStr (uuid (uuid_counter db))) d) (rows db),
         uuid_counter := Suc (uuid_counter db)\<rparr>, True)"
| "write_doc (Some v) d db = (db, False)"

text \<open>\<^verbatim>\<open>target_db.update(doc_li)\<close>: the bulk update, with one outcome per document.\<close>

fun db_update :: "doc list \<Rightarrow> couch_db \<Rightarrow> couch_db \<times> bool list" where
  "db_update [] db = (db, [])"
| "db_update (d # ds) db =
     (case write_doc (map_of d ''_id'') d db of
        (db', ok) \<Rightarrow> (case db_update ds db' of (db'', oks) \<Rightarrow> (db'', ok # oks)))"

definition server_delete ::
  "(string \<times> couch_db) list \<Rightarrow> string \<Rightarrow> exn + (string \<times> couch_db) list" where
  "server_delete server name =
     (case map_of server name of
        None \<Rightarrow> Inl ResourceNotFound
      | Some db \<Rightarrow> Inr (AList.delete name server))"

record couch_backend =
  target_server :: "(string \<times> couch_db) list"
  db_name :: string
  doc_cache :: "(string \<times> doc) list"

text \<open>A request through the database handle fails when the database is gone.\<close>

definition target_db :: "couch_backend \<Rightarrow> exn + couch_db" where
  "target_db b =
     (case map_of (target_server b) (db_name b) of
        None \<Rightarrow> Inl ResourceNotFound
      | Some db \<Rightarrow> Inr db)"

definition put_db :: "couch_backend \<Rightarrow> couch_db \<Rightarrow> couch_backend" where
  "put_db b db = b\<lparr>target_server := AList.update (db_name b) db (target_server b)\<rparr>"

text \<open>
  \<^verbatim>\<open>doc_li[i:i + step]\<close> where \<open>doc_li\<close> is \<^verbatim>\<open>self._doc_cache.values()\<close>, as
  \<^verbatim>\<open>finalize\<close> passes it: \<^verbatim>\<open>len\<close> counts a dictionary view, a slice of it raises
  TypeError.
\<close>

definition values_slice :: "'a list \<Rightarrow> nat \<Rightarrow> nat \<Rightarrow> exn + 'a list" where
  "values_slice doc_li i step = Inl TypeError"

text \<open>
  The loop of \<^verbatim>\<open>_db_upload\<close>: \<^verbatim>\<open>output.extend(self.target_db.update(doc_li[i:i + step]))\<close>.
  The lines it prints afterwards (with helpers that are not among the sources) change
  nothing and are left out.
\<close>

fun db_upload_loop ::
  "doc list \<Rightarrow> nat \<Rightarrow> nat list \<Rightarrow> couch_db \<times> bool list \<Rightarrow> exn + couch_db \<times> bool list" where
  "db_upload_loop doc_li step [] acc = Inr acc"
| "db_upload_loop doc_li step (i # is) (db, output) =
     (case values_slice doc_li i step of
        Inl e \<Rightarrow> Inl e
      | Inr chunk \<Rightarrow>
          (case db_update chunk db of
             (db', oks) \<Rightarrow> db_upload_loop doc_li step is (db', output @ oks)))"

definition db_upload :: "couch_db \<Rightarrow> doc list \<Rightarrow> exn + couch_db \<times> bool list" where
  "db_upload db doc_li =
     db_upload_loop doc_li 10000 (range_from 0 (length doc_li) 10000) (db, [])"

definition DocCouchDBBackend_update ::
  "couch_backend \<Rightarrow> string \<Rightarrow> doc \<Rightarrow> exn + couch_backend" where
  "DocCouchDBBackend_update b i extra_doc =
     (case (if doc_cache b = []
            then (case target_db b of Inl e \<Rightarrow> Inl e | Inr db \<Rightarrow> Inr (py_dict (rows db)))
            else Inr (doc_cache b)) of
        Inl e \<Rightarrow> Inl e
      | Inr cache \<Rightarrow>
          (case map_of cache i of
             None \<Rightarrow> Inr (b\<lparr>doc_cache := cache\<rparr>)
           | Some current_doc \<Rightarrow>
               if current_doc \<noteq> []
               then Inr (b\<lparr>doc_cache := AList.update i (dict_update current_doc extra_doc) cache\<rparr>)
               else Inr (b\<lparr>doc_cache := cache\<rparr>)))"

definition DocCouchDBBackend_drop :: "couch_backend \<Rightarrow> exn + couch_backend" where
  "DocCouchDBBackend_drop b =
     (case server_delete (target_server b) (db_name b) of
        Inl e \<Rightarrow> if e = ResourceNotFound then Inr b else Inl e
      | Inr server \<Rightarrow> Inr (b\<lparr>target_server := server\<rparr>))"

text \<open>The list \<open>species_li\<close> of \<^verbatim>\<open>finalize\<close>: the nine species.\<close>

definition finalize_species_li :: "int list" where
  "finalize_species_li = [9606, 10090, 10116, 7227, 6239, 7955, 3702, 8364, 9823]"

text \<open>
  \<^verbatim>\<open>finalize\<close>: with a cache that is not empty, the trimming, the upload of the
  cached documents and the clearing of the cache; then \<open>commit\<close> and \<open>compact\<close>, which
  need the database to be there.
\<close>

definition DocCouchDBBackend_finalize :: "couch_backend \<Rightarrow> exn + couch_backend" where
  "DocCouchDBBackend_finalize b =
     (case (if length (doc_cache b) > 0
            then
              (case homologene_trimming finalize_species_li (doc_cache b) of
                 Inl e \<Rightarrow> Inl e
               | Inr cache \<Rightarrow>
                   (case target_db b of
                      Inl e \<Rightarrow> Inl e
                    | Inr db \<Rightarrow>
                        (case db_upload db (map snd cache) of
                           Inl e \<Rightarrow> Inl e
                         | Inr r \<Rightarrow> Inr ((put_db b (fst r))\<lparr>doc_cache := []\<rparr>))))
            else Inr b) of
        Inl e \<Rightarrow> Inl e
      | Inr b' \<Rightarrow> (case target_db b' of Inl e \<Rightarrow> Inl e | Inr db \<Rightarrow> Inr b'))"

definition DocCouchDBBackend_get_from_id :: "couch_backend \<Rightarrow> string \<Rightarrow> exn + doc" where
  "DocCouchDBBackend_get_from_id b i =
     (case target_db b of
        Inl e \<Rightarrow> Inl e
      | Inr db \<Rightarrow> (case map_of (rows db) i of None \<Rightarrow> Inl ResourceNotFound | Some d \<Rightarrow> Inr d))"

section \<open>Notions used by the properties\<close>

text \<open>
  What the document database keeps true of a collection: every document has an \<open>_id\<close>
  and no two documents share one.
\<close>

definition collection_ok :: "collection \<Rightarrow> bool" where
  "collection_ok c =
     (list_all (\<lambda>d. map_of d ''_id'' \<noteq> None) (docs c)
      \<and> distinct (map (\<lambda>d. map_of d ''_id'') (docs c)))"

text \<open>
  The dictionary that a list of items denotes when a later item overwrites an earlier
  one, as in \<^verbatim>\<open>dict(items)\<close>; with distinct keys this is \<open>map_of\<close>.
\<close>

definition items_dict :: "('k \<times> 'v) list \<Rightarrow> 'k \<Rightarrow> 'v option" where
  "items_dict items = map_of (rev items)"

text \<open>A slot of a diff, empty when the key is missing.\<close>

definition slot :: "'a list option \<Rightarrow> 'a list" where
  "slot x = (case x of None \<Rightarrow> [] | Some xs \<Rightarrow> xs)"

text \<open>
  What the replicated store keeps true of a database: every row is listed under the
  \<open>_id\<close> of its document, and no two rows share an id.
\<close>

definition store_ok :: "couch_db \<Rightarrow> bool" where
  "store_ok db =
     (list_all (\<lambda>kd. map_of (snd kd) ''_id'' = Some (PStr (fst kd))) (rows db)
      \<and> distinct (map fst (rows db)))"

text \<open>Every document of a batch has an \<open>_id\<close>, and the collection has none of them.\<close>

definition absent_ids :: "collection \<Rightarrow> doc list \<Rightarrow> bool" where
  "absent_ids c ds =
     list_all (\<lambda>d. case map_of d ''_id'' of None \<Rightarrow> False | Some j \<Rightarrow> find_one c j = None) ds"

section \<open>DocCouchDBBackend: the homologene trimming raises\<close>



section \<open>DocMongoBackend: the order of mget_from_ids\<close>

lemma find_append_case:
  "List.find P (xs @ ys) = (case List.find P xs of None \<Rightarrow> List.find P ys | Some x \<Rightarrow> Some x)"
  by (induction xs) auto

lemma id_dict_map_of:
  assumes "\<And>d. d \<in> set cur \<Longrightarrow> \<exists>j. map_of d ''_id'' = Some j \<and> hashable j"
  shows "\<exists>dd. id_dict cur acc = Inr dd \<and>
           (\<forall>i. map_of dd i = (case List.find (has_id i) (rev cur) of
                                Some d \<Rightarrow> Some d | None \<Rightarrow> map_of acc i))"
  using assms
proof (induction cur arbitrary: acc)
  case Nil
  then show ?case by simp
next
  case (Cons d cur)
  from Cons.prems obtain j where j: "map_of d ''_id'' = Some j" "hashable j"
    by auto
  from Cons.prems have "\<And>x. x \<in> set cur \<Longrightarrow> \<exists>j. map_of x ''_id'' = Some j \<and> hashable j"
    by auto
  from Cons.IH [OF this, of "AList.update j d acc"] obtain dd where
    dd: "id_dict cur (AList.update j d acc) = Inr dd"
    and m: "\<And>i. map_of dd i = (case List.find (has_id i) (rev cur) of
                Some d \<Rightarrow> Some d | None \<Rightarrow> map_of (AList.update j d acc) i)"
    by blast
  have hd: "\<And>i. has_id i d \<longleftrightarrow> i = j"
    using j by (auto simp: has_id_def)
  have "\<And>i. map_of dd i = (case List.find (has_id i) (rev (d # cur)) of
                Some d \<Rightarrow> Some d | None \<Rightarrow> map_of acc i)"
    by (simp add: m find_append_case hd update_conv' split: option.splits)
  with j dd show ?case
    by simp
qed

lemma find_rev_distinct:
  "distinct (map (\<lambda>d. map_of d ''_id'') ds) \<Longrightarrow>
   List.find (has_id i) (rev ds) = List.find (has_id i) ds"
proof (induction ds)
  case Nil
  then show ?case by simp
next
  case (Cons d ds)
  have "List.find (has_id i) ds = None" if "has_id i d"
  proof -
    from that Cons.prems have "\<And>x. x \<in> set ds \<Longrightarrow> \<not> has_id i x"
      by (force simp: has_id_def)
    then show ?thesis
      by (simp add: find_None_iff)
  qed
  with Cons show ?case
    by (simp add: find_append_case split: option.splits)
qed

lemma find_filter_ids:
  "List.find (has_id i)
     (filter (\<lambda>d. case map_of d ''_id'' of None \<Rightarrow> False | Some j \<Rightarrow> j \<in> set ids) ds)
   = (if i \<in> set ids then List.find (has_id i) ds else None)"
proof (induction ds)
  case Nil
  then show ?case by simp
next
  case (Cons d ds)
  show ?case
  proof (cases "map_of d ''_id''")
    case None
    then have "\<not> has_id i d" by (simp add: has_id_def)
    with None Cons show ?thesis by simp
  next
    case (Some j)
    then have "has_id i d \<longleftrightarrow> i = j" by (auto simp: has_id_def)
    with Some Cons show ?thesis by auto
  qed
qed

lemma find_find_in:
  "List.find (has_id i) (find_in c ids) = (if i \<in> set ids then find_one c i else None)"
  by (simp add: find_in_def find_one_def find_filter_ids)

lemma pick_docs_map_filter:
  "list_all hashable ids \<Longrightarrow> pick_docs dd ids = Inr (List.map_filter (map_of dd) ids)"
  by (induction ids) (auto simp: List.map_filter_simps split: option.splits)

lemma map_filter_cong_set:
  "(\<And>x. x \<in> set xs \<Longrightarrow> f x = g x) \<Longrightarrow> List.map_filter f xs = List.map_filter g xs"
  by (induction xs) (auto simp: List.map_filter_simps split: option.splits)

text \<open>
  Claim C4. For every collection (with the unique ids the document database keeps) and
  every list of ids (hashable values, as strings and numbers are),
  \<^verbatim>\<open>mget_from_ids(ids)\<close> returns, in the order of \<open>ids\<close>, the document of each id
  that has one, and nothing for an id without a document; the result is an iterator
  when \<open>asiter\<close> is true and the list itself otherwise.
\<close>

theorem mget_from_ids_order:
  assumes ok: "collection_ok c" and h: "list_all hashable ids"
  shows "DocMongoBackend_mget_from_ids c ids asiter =
         Inr ((if asiter then Iterator else Materialized) (List.map_filter (find_one c) ids))"
proof -
  let ?cur = "find_in c ids"
  have "\<And>d. d \<in> set ?cur \<Longrightarrow> \<exists>j. map_of d ''_id'' = Some j \<and> hashable j"
    using h by (auto simp: find_in_def list_all_iff split: option.splits)
  from id_dict_map_of [OF this, of ?cur "[]"] obtain dd where
    dd: "id_dict ?cur [] = Inr dd"
    and m: "\<And>i. map_of dd i = List.find (has_id i) (rev ?cur)"
    by (auto split: option.splits) (metis option.exhaust option.simps(4,5))
  have "distinct (map (\<lambda>d. map_of d ''_id'') ?cur)"
    using ok by (simp add: collection_ok_def find_in_def distinct_map_filter)
  then have "\<And>i. map_of dd i = List.find (has_id i) ?cur"
    using m by (simp add: find_rev_distinct)
  then have "\<And>i. i \<in> set ids \<Longrightarrow> map_of dd i = find_one c i"
    by (simp add: find_find_in)
  then have "List.map_filter (map_of dd) ids = List.map_filter (find_one c) ids"
    by (rule map_filter_cong_set)
  with dd pick_docs_map_filter [OF h, of dd] show ?thesis
    by (simp add: DocMongoBackend_mget_from_ids_def)
qed

theorem mget_from_ids_order_witness:
  "collection_ok
     \<lparr>docs = [[(''_id'', PStr ''A''), (''n'', PInt 1)], [(''_id'', PStr ''B'')],
              [(''_id'', PStr ''C'')]], oid_counter = 0\<rparr>
   \<and> list_all hashable [PStr ''C'', PStr ''A'', PStr ''Z'', PStr ''B'']
   \<and> DocMongoBackend_mget_from_ids
       \<lparr>docs = [[(''_id'', PStr ''A''), (''n'', PInt 1)], [(''_id'', PStr ''B'')],
                [(''_id'', PStr ''C'')]], oid_counter = 0\<rparr>
       [PStr ''C'', PStr ''A'', PStr ''Z'', PStr ''B''] False
     = Inr (Materialized
         [[(''_id'', PStr ''C'')], [(''_id'', PStr ''A''), (''n'', PInt 1)], [(''_id'', PStr ''B'')]])
   \<and> DocMongoBackend_mget_from_ids
       \<lparr>docs = [[(''_id'', PStr ''A''), (''n'', PInt 1)], [(''_id'', PStr ''B'')],
                [(''_id'', PStr ''C'')]], oid_counter = 0\<rparr>
       [PStr ''C'', PStr ''A'', PStr ''Z'', PStr ''B''] True
     = Inr (Iterator
         [[(''_id'', PStr ''C'')], [(''_id'', PStr ''A''), (''n'', PInt 1)], [(''_id'', PStr ''B'')]])"
proof -
  let ?c = "\<lparr>docs = [[(''_id'', PStr ''A''), (''n'', PInt 1)], [(''_id'', PStr ''B'')],
              [(''_id'', PStr ''C'')]], oid_counter = 0\<rparr>"
  let ?ids = "[PStr ''C'', PStr ''A'', PStr ''Z'', PStr ''B'']"
  have ok: "collection_ok ?c"
    by (simp add: collection_ok_def)
  have h: "list_all hashable ?ids"
    by simp
  have f: "List.map_filter (find_one ?c) ?ids
           = [[(''_id'', PStr ''C'')], [(''_id'', PStr ''A''), (''n'', PInt 1)], [(''_id'', PStr ''B'')]]"
    by (simp add: List.map_filter_simps find_one_def has_id_def)
  from mget_from_ids_order [OF ok h, of False] mget_from_ids_order [OF ok h, of True] f ok h
  show ?thesis
    by simp
qed

section \<open>DocMongoBackend: the chunks of count_from_ids and remove_from_ids\<close>

lemma ceil_pos:
  assumes "0 < step" "0 < (m::nat)"
  shows "(m + step - 1) div step = Suc ((m - 1) div step)"
proof -
  from assms have e: "m + step - 1 = (m - 1) + step"
    by linarith
  from assms have "step \<noteq> 0"
    by linarith
  then have "((m - 1) + step) div step = (m - 1) div step + 1"
    by (rule div_add_self2)
  with e show ?thesis
    by (simp only: Suc_eq_plus1)
qed

lemma ceil_step:
  assumes "0 < step" "i < n"
  shows "(n - i + step - 1) div step = Suc ((n - (i + step) + step - 1) div step)"
proof -
  from assms have l: "(n - i + step - 1) div step = Suc ((n - i - 1) div step)"
    by (intro ceil_pos) linarith+
  have "(n - (i + step) + step - 1) div step = (n - i - 1) div step"
  proof (cases "step \<le> n - i")
    case True
    then have "n - (i + step) + step - 1 = n - i - 1"
      by linarith
    then show ?thesis
      by (rule arg_cong)
  next
    case False
    with assms have a: "n - (i + step) + step - 1 < step" and b: "n - i - 1 < step"
      by linarith+
    from a have "(n - (i + step) + step - 1) div step = 0"
      by (rule div_less)
    moreover from b have "(n - i - 1) div step = 0"
      by (rule div_less)
    ultimately show ?thesis
      by (simp only:)
  qed
  with l show ?thesis
    by (simp only:)
qed

lemma range_from_closed:
  "0 < step \<Longrightarrow>
   range_from i n step = map (\<lambda>k. i + k * step) [0..<(n - i + step - 1) div step]"
proof (induction i n step rule: range_from.induct)
  case (1 i stop step)
  show ?case
  proof (cases "stop \<le> i")
    case True
    then have "(stop - i + step - 1) div step = 0"
      using "1.prems" by simp
    with True show ?thesis
      by (simp add: range_from.simps [of i])
  next
    case False
    with "1.prems" have ih: "range_from (i + step) stop step =
        map (\<lambda>k. i + step + k * step) [0..<(stop - (i + step) + step - 1) div step]"
      using "1.IH" by simp
    from False "1.prems" have c: "(stop - i + step - 1) div step
        = Suc ((stop - (i + step) + step - 1) div step)"
      by (intro ceil_step) simp_all
    have "map (\<lambda>k. i + k * step) [0..<Suc m] = i # map (\<lambda>k. i + step + k * step) [0..<m]" for m
      by (simp add: upt_rec [of 0 "Suc m"] map_Suc_upt [symmetric] del: upt_Suc)
    with False "1.prems" ih c show ?thesis
      by (simp add: range_from.simps [of i])
  qed
qed

lemma count_loop_acc:
  "count_loop c ids step is (t, qs) =
     (t + sum_list (map (\<lambda>i. length (find_in c (slice ids i step))) is),
      qs @ map (\<lambda>i. slice ids i step) is)"
  by (induction "is" arbitrary: t qs) (simp_all add: Let_def)

lemma remove_loop_acc:
  "remove_loop ids step is (c, qs) =
     (fold (\<lambda>i c. remove_in c (slice ids i step)) is c, qs @ map (\<lambda>i. slice ids i step) is)"
  by (induction "is" arbitrary: c qs) (simp_all add: Let_def)

lemma concat_slices:
  "0 < step \<Longrightarrow> concat (map (\<lambda>i. slice ids i step) (range_from i (length ids) step)) = drop i ids"
proof (induction i "length ids" step rule: range_from.induct)
  case (1 i step)
  show ?case
  proof (cases "length ids \<le> i")
    case True
    then show ?thesis by (simp add: range_from.simps [of i])
  next
    case False
    with 1 have "concat (map (\<lambda>i. slice ids i step) (range_from (i + step) (length ids) step))
        = drop (i + step) ids"
      by simp
    with False "1.prems" show ?thesis
      by (simp add: range_from.simps [of i] slice_def add.commute [of i step] drop_drop [symmetric]
          del: drop_drop)
  qed
qed

lemma filter_ids_append:
  "set xs \<inter> set ys = {} \<Longrightarrow>
   length (filter (\<lambda>d. case map_of d ''_id'' of None \<Rightarrow> False | Some i \<Rightarrow> i \<in> set (xs @ ys)) ds)
   = length (filter (\<lambda>d. case map_of d ''_id'' of None \<Rightarrow> False | Some i \<Rightarrow> i \<in> set xs) ds)
     + length (filter (\<lambda>d. case map_of d ''_id'' of None \<Rightarrow> False | Some i \<Rightarrow> i \<in> set ys) ds)"
proof (induction ds)
  case Nil
  then show ?case by simp
next
  case (Cons d ds)
  show ?case
  proof (cases "map_of d ''_id''")
    case None
    with Cons show ?thesis by simp
  next
    case (Some j)
    from Cons.prems have "\<not> (j \<in> set xs \<and> j \<in> set ys)" by auto
    with Some Cons show ?thesis by auto
  qed
qed

lemma find_in_append:
  "set xs \<inter> set ys = {} \<Longrightarrow>
   length (find_in c (xs @ ys)) = length (find_in c xs) + length (find_in c ys)"
  by (simp only: find_in_def filter_ids_append)

lemma find_in_nil: "find_in c [] = []"
proof -
  have "filter (\<lambda>d. case map_of d ''_id'' of None \<Rightarrow> False | Some i \<Rightarrow> i \<in> set []) ds = []"
    for ds :: "doc list"
    by (induction ds) (simp_all split: option.splits)
  then show ?thesis
    by (simp only: find_in_def)
qed

lemma find_in_concat:
  "distinct (concat qs) \<Longrightarrow>
   sum_list (map (\<lambda>q. length (find_in c q)) qs) = length (find_in c (concat qs))"
proof (induction qs)
  case Nil
  then show ?case by (simp add: find_in_nil)
next
  case (Cons q qs)
  then have "set q \<inter> set (concat qs) = {}" "distinct (concat qs)"
    by auto
  with Cons.IH find_in_append [of q "concat qs" c] show ?case
    by simp
qed

lemma remove_in_append: "remove_in (remove_in c xs) ys = remove_in c (xs @ ys)"
proof -
  have "filter (\<lambda>d. case map_of d ''_id'' of None \<Rightarrow> True | Some i \<Rightarrow> i \<notin> set ys)
          (filter (\<lambda>d. case map_of d ''_id'' of None \<Rightarrow> True | Some i \<Rightarrow> i \<notin> set xs) ds)
        = filter (\<lambda>d. case map_of d ''_id'' of None \<Rightarrow> True | Some i \<Rightarrow> i \<notin> set (xs @ ys)) ds"
    for ds
    by (induction ds) (auto split: option.splits)
  then show ?thesis
    by (simp add: remove_in_def)
qed

lemma remove_in_nil: "remove_in c [] = c"
proof -
  have "filter (\<lambda>d. case map_of d ''_id'' of None \<Rightarrow> True | Some i \<Rightarrow> i \<notin> set []) ds = ds"
    for ds :: "doc list"
    by (induction ds) (simp_all split: option.splits)
  then show ?thesis
    by (simp only: remove_in_def collection.surjective collection.update_convs) simp
qed

lemma fold_remove_in:
  "fold (\<lambda>q c. remove_in c q) qs c = remove_in c (concat qs)"
proof (induction qs arbitrary: c)
  case Nil
  then show ?case by (simp add: remove_in_nil)
next
  case (Cons q qs)
  then show ?case by (simp add: remove_in_append)
qed


text \<open>
  What holds of the chunks for every list of ids and every positive \<open>step\<close>:
  \<^verbatim>\<open>count_from_ids(ids, step)\<close> sends exactly \<open>ceil(len(ids) / step)\<close> queries, the
  k-th for the slice \<open>ids[k * step : k * step + step]\<close>; the slices put together are
  \<open>ids\<close>, and the result is the sum of the counts of the queries. When no id is
  repeated in \<open>ids\<close> the sum is the count of one query for all of \<open>ids\<close>.
  \<^verbatim>\<open>remove_from_ids\<close> sends its removals for the same slices and leaves the
  collection that one removal for all of \<open>ids\<close> leaves.
\<close>

lemma count_from_ids_chunks:
  assumes "0 < step"
  shows "\<exists>total queries.
      count_from_ids_queries c ids step = Inr (total, queries)
    \<and> DocMongoBackend_count_from_ids c ids step = Inr total
    \<and> length queries = (length ids + nat step - 1) div nat step
    \<and> queries = map (\<lambda>k. slice ids (k * nat step) (nat step)) [0..<length queries]
    \<and> concat queries = ids
    \<and> total = sum_list (map (\<lambda>q. length (find_in c q)) queries)
    \<and> (distinct ids \<longrightarrow> total = length (find_in c ids))
    \<and> remove_from_ids_queries c ids step = Inr (remove_in c ids, queries)
    \<and> DocMongoBackend_remove_from_ids c ids step = Inr (remove_in c ids)"
proof -
  let ?s = "nat step"
  let ?is = "range_from 0 (length ids) ?s"
  let ?qs = "map (\<lambda>i. slice ids i ?s) ?is"
  let ?total = "sum_list (map (\<lambda>q. length (find_in c q)) ?qs)"
  from assms have s: "0 < ?s" by simp
  from assms have r: "py_range (length ids) step = Inr ?is"
    by (simp add: py_range_def)
  have cl: "?is = map (\<lambda>k. k * ?s) [0..<(length ids + ?s - 1) div ?s]"
    using range_from_closed [OF s, of 0 "length ids"] by simp
  have len: "length ?qs = (length ids + ?s - 1) div ?s"
    by (simp add: cl)
  have shape: "?qs = map (\<lambda>k. slice ids (k * ?s) ?s) [0..<length ?qs]"
    unfolding len by (simp add: cl comp_def)
  have cc: "concat ?qs = ids"
    using concat_slices [OF s, of ids 0] by simp
  have q1: "count_from_ids_queries c ids step = Inr (?total, ?qs)"
    by (simp add: count_from_ids_queries_def r count_loop_acc comp_def)
  have q2: "DocMongoBackend_count_from_ids c ids step = Inr ?total"
    by (simp add: DocMongoBackend_count_from_ids_def q1)
  have d: "distinct ids \<longrightarrow> ?total = length (find_in c ids)"
    using find_in_concat [of ?qs c] cc by simp
  have "fold (\<lambda>i c. remove_in c (slice ids i ?s)) ?is c = fold (\<lambda>q c. remove_in c q) ?qs c"
    by (simp add: fold_map comp_def)
  then have f: "fold (\<lambda>i c. remove_in c (slice ids i ?s)) ?is c = remove_in c ids"
    by (simp only: fold_remove_in cc)
  have q3: "remove_from_ids_queries c ids step = Inr (remove_in c ids, ?qs)"
    by (simp add: remove_from_ids_queries_def r remove_loop_acc f)
  have q4: "DocMongoBackend_remove_from_ids c ids step = Inr (remove_in c ids)"
    by (simp add: DocMongoBackend_remove_from_ids_def q3)
  from q1 q2 len shape cc d q3 q4 show ?thesis
    by blast
qed

text \<open>
  Claim C6 fails on the code. The count of \<^verbatim>\<open>count_from_ids\<close> is to be the count
  of the documents matching the ids, as one query for all ids gives it. With an id that
  stands in two chunks the loop counts its document once per chunk: for the ids
  \<open>[A, A]\<close> and a step of 1, on a collection that holds \<open>A\<close>, the result is 2 where
  one document matches.
\<close>

theorem count_from_ids_repeated_ids:
  "DocMongoBackend_count_from_ids \<lparr>docs = [[(''_id'', PStr ''A'')]], oid_counter = 0\<rparr>
     [PStr ''A'', PStr ''A''] 1 = Inr 2
   \<and> length (find_in \<lparr>docs = [[(''_id'', PStr ''A'')]], oid_counter = 0\<rparr>
        [PStr ''A'', PStr ''A'']) = 1"
  by (simp add: DocMongoBackend_count_from_ids_def count_from_ids_queries_def py_range_def
      range_from.simps slice_def find_in_def Let_def)

section \<open>DocMongoBackend: insert does not raise\<close>

lemma insert_ordered_length:
  "insert_ordered ds c ids0 = (None, c', ids) \<Longrightarrow> length ids = length ids0 + length ds"
proof (induction ds arbitrary: c ids0)
  case Nil
  then show ?case by simp
next
  case (Cons d ds)
  show ?case
  proof (cases "map_of d ''_id''")
    case None
    with Cons.prems Cons.IH show ?thesis
      by (fastforce split: if_splits)
  next
    case (Some i)
    with Cons.prems Cons.IH show ?thesis
      by (fastforce split: if_splits)
  qed
qed

lemma insert_many_length:
  "insert_many c ds = (Inr ids, c') \<Longrightarrow> length ids = length ds"
  by (auto simp: insert_many_def dest: insert_ordered_length split: if_splits prod.splits option.splits)

text \<open>
  Claim C5. For every backend and every batch of documents: when the insert of the
  collection succeeds, \<^verbatim>\<open>insert\<close> returns the number of inserted ids, which is
  the number of documents of the batch; when it raises an exception, \<^verbatim>\<open>insert\<close>
  returns nothing (\<open>None\<close>) and the exception is in the file \<^verbatim>\<open>err\<close>; no exception
  leaves \<^verbatim>\<open>insert\<close>.
\<close>

theorem insert_never_raises:
  "(\<forall>ids c'. insert_many (target_collection b) ds = (Inr ids, c') \<longrightarrow>
       DocMongoBackend_insert b ds = Inr (Some (length ids), b\<lparr>target_collection := c'\<rparr>)
       \<and> length ids = length ds)
   \<and> (\<forall>e c'. insert_many (target_collection b) ds = (Inl e, c') \<longrightarrow>
       DocMongoBackend_insert b ds = Inr (None, b\<lparr>target_collection := c', err_file := Some e\<rparr>))
   \<and> (\<forall>e. DocMongoBackend_insert b ds \<noteq> Inl e)"
  by (auto simp: DocMongoBackend_insert_def dest: insert_many_length split: prod.splits sum.splits)

theorem insert_never_raises_witness:
  "DocMongoBackend_insert
     \<lparr>target_collection = \<lparr>docs = [[(''_id'', PStr ''A'')]], oid_counter = 0\<rparr>, err_file = None\<rparr>
     [[(''_id'', PStr ''B'')], [(''n'', PInt 1)]]
   = Inr (Some 2,
       \<lparr>target_collection =
          \<lparr>docs = [[(''_id'', PStr ''A'')], [(''_id'', PStr ''B'')],
                   [(''n'', PInt 1), (''_id'', PObjectId 0)]], oid_counter = 1\<rparr>,
        err_file = None\<rparr>)
   \<and> DocMongoBackend_insert
     \<lparr>target_collection = \<lparr>docs = [[(''_id'', PStr ''A'')]], oid_counter = 0\<rparr>, err_file = None\<rparr>
     [[(''_id'', PStr ''B'')], [(''_id'', PStr ''A'')], [(''_id'', PStr ''C'')]]
   = Inr (None,
       \<lparr>target_collection =
          \<lparr>docs = [[(''_id'', PStr ''A'')], [(''_id'', PStr ''B'')]], oid_counter = 0\<rparr>,
        err_file = Some BulkWriteError\<rparr>)"
proof -
  let ?b = "\<lparr>target_collection = \<lparr>docs = [[(''_id'', PStr ''A'')]], oid_counter = 0\<rparr>, err_file = None\<rparr>"
  have s: "insert_many (target_collection ?b) [[(''_id'', PStr ''B'')], [(''n'', PInt 1)]]
     = (Inr [PStr ''B'', PObjectId 0],
        \<lparr>docs = [[(''_id'', PStr ''A'')], [(''_id'', PStr ''B'')],
                 [(''n'', PInt 1), (''_id'', PObjectId 0)]], oid_counter = 1\<rparr>)"
    by (simp add: insert_many_def find_one_def has_id_def)
  have f: "insert_many (target_collection ?b)
       [[(''_id'', PStr ''B'')], [(''_id'', PStr ''A'')], [(''_id'', PStr ''C'')]]
     = (Inl BulkWriteError,
        \<lparr>docs = [[(''_id'', PStr ''A'')], [(''_id'', PStr ''B'')]], oid_counter = 0\<rparr>)"
    by (simp add: insert_many_def find_one_def has_id_def)
  from insert_never_raises [of ?b "[[(''_id'', PStr ''B'')], [(''n'', PInt 1)]]"] s
  have 1: "DocMongoBackend_insert ?b [[(''_id'', PStr ''B'')], [(''n'', PInt 1)]]
     = Inr (Some 2, ?b\<lparr>target_collection :=
        \<lparr>docs = [[(''_id'', PStr ''A'')], [(''_id'', PStr ''B'')],
                 [(''n'', PInt 1), (''_id'', PObjectId 0)]], oid_counter = 1\<rparr>\<rparr>)"
    by simp
  from insert_never_raises [of ?b "[[(''_id'', PStr ''B'')], [(''_id'', PStr ''A'')], [(''_id'', PStr ''C'')]]"] f
  have 2: "DocMongoBackend_insert ?b [[(''_id'', PStr ''B'')], [(''_id'', PStr ''A'')], [(''_id'', PStr ''C'')]]
     = Inr (None, ?b\<lparr>target_collection :=
        \<lparr>docs = [[(''_id'', PStr ''A'')], [(''_id'', PStr ''B'')]], oid_counter = 0\<rparr>,
        err_file := Some BulkWriteError\<rparr>)"
    by simp
  from 1 2 show ?thesis
    by simp
qed

section \<open>DocMongoBackend: update_diff\<close>

text \<open>
  Claim C2 fails on the code. A diff whose \<open>add\<close>, \<open>update\<close> and \<open>delete\<close> are
  empty, with no extra fields, leaves \<open>_updates\<close> empty; \<^verbatim>\<open>update_one\<close> is called
  with it all the same, and the driver refuses an empty update document with
  ValueError: \<^verbatim>\<open>update_diff\<close> raises where the claim has it return.
\<close>

theorem update_diff_empty_diff_raises:
  "DocMongoBackend_update_diff
     \<lparr>docs = [[(''_id'', PInt 1), (''y'', PInt 1)]], oid_counter = 0\<rparr>
     \<lparr>diff_id = Some (PInt 1), diff_add = Some [], diff_update = Some [], diff_delete = Some []\<rparr>
     [] = Inl ValueError"
  by (simp add: DocMongoBackend_update_diff_def diff_updates_def update_one_def py_dict_def
      dict_update_def)

lemma items_dict_distinct: "distinct (map fst e) \<Longrightarrow> items_dict e = map_of e"
proof (induction e)
  case Nil
  then show ?case by (simp add: items_dict_def)
next
  case (Cons p e)
  obtain k v where p: "p = (k, v)" by (cases p)
  from Cons.prems p have "map_of e k = None"
    by (auto simp: map_of_eq_None_iff)
  moreover from Cons have "map_of (rev e) = map_of e"
    by (simp add: items_dict_def)
  ultimately show ?case
    by (auto simp: items_dict_def p fun_eq_iff map_add_def split: option.splits)
qed

lemma map_of_dict_update: "map_of (dict_update d e) = map_of d ++ items_dict e"
proof (induction e arbitrary: d)
  case Nil
  then show ?case by (simp add: dict_update_def items_dict_def)
next
  case (Cons p e)
  obtain k v where p: "p = (k, v)" by (cases p)
  have "dict_update d (p # e) = dict_update (AList.update k v d) e"
    by (simp add: dict_update_def p)
  then have "map_of (dict_update d (p # e)) = (map_of d)(k \<mapsto> v) ++ items_dict e"
    by (simp only: Cons.IH update_conv')
  also have "\<dots> = map_of d ++ items_dict (p # e)"
    by (auto simp: items_dict_def p fun_eq_iff map_add_def split: option.splits)
  finally show ?case .
qed

lemma keys_dict_update: "fst ` set (dict_update d e) = fst ` set d \<union> fst ` set e"
proof (induction e arbitrary: d)
  case Nil
  then show ?case by (simp add: dict_update_def)
next
  case (Cons p e)
  obtain k v where p: "p = (k, v)" by (cases p)
  have "dict_update d (p # e) = dict_update (AList.update k v d) e"
    by (simp add: dict_update_def p)
  with Cons.IH [of "AList.update k v d"] show ?case
    by (auto simp: p dom_update)
qed

lemma dict_update_nil_iff: "dict_update d e = [] \<longleftrightarrow> d = [] \<and> e = []"
  using keys_dict_update [of d e] by (cases "dict_update d e") auto

lemma map_of_unset_fields: "map_of (unset_fields ks d) = map_of d |` (- set ks)"
proof -
  have "unset_fields ks d = filter (\<lambda>x. fst x \<in> - set ks) d"
    by (simp add: unset_fields_def)
  moreover have "{k. k \<in> - set ks} = - set ks"
    by auto
  ultimately show ?thesis
    using map_of_filter [of "\<lambda>k. k \<in> - set ks" d] by (simp only:)
qed

lemma distinct_dict_update:
  "distinct (map fst d) \<Longrightarrow> distinct (map fst (dict_update d e))"
proof (induction e arbitrary: d)
  case Nil
  then show ?case by (simp add: dict_update_def)
next
  case (Cons p e)
  obtain k v where p: "p = (k, v)" by (cases p)
  have "dict_update d (p # e) = dict_update (AList.update k v d) e"
    by (simp add: dict_update_def p)
  with Cons.IH [of "AList.update k v d"] Cons.prems show ?case
    by (simp add: distinct_update)
qed

lemma replace_first_ids:
  "has_id i d' \<Longrightarrow>
   map (\<lambda>d. map_of d ''_id'') (replace_first i d' ds) = map (\<lambda>d. map_of d ''_id'') ds"
  by (induction ds) (auto simp: has_id_def)

lemma replace_first_others:
  "k < length ds \<Longrightarrow> \<not> has_id i (ds ! k) \<Longrightarrow> replace_first i d' ds ! k = ds ! k"
proof (induction ds arbitrary: k)
  case Nil
  then show ?case by simp
next
  case (Cons d ds)
  then show ?case by (cases k) auto
qed

lemma replace_first_find:
  "List.find (has_id i) ds = Some d \<Longrightarrow> has_id i d' \<Longrightarrow>
   List.find (has_id i) (replace_first i d' ds) = Some d'"
  by (induction ds) (auto split: if_splits)

lemma set_fields_diff_updates:
  "set_fields (diff_updates df extra)
   = dict_update (py_dict (slot (diff_add df) @ slot (diff_update df))) extra"
  by (auto simp: set_fields_def diff_updates_def slot_def Let_def update_conv' dict_update_def
      split: option.splits)

lemma unset_names_diff_updates:
  "set (unset_names (diff_updates df extra)) = set (slot (diff_delete df))"
proof -
  have "fst ` set (py_dict (map (\<lambda>x. (x, PInt 1)) del)) = set del" for del :: "string list"
    by (simp add: py_dict_def keys_dict_update image_image)
  then show ?thesis
    by (auto simp: unset_names_def diff_updates_def slot_def Let_def update_conv'
        split: option.splits)
qed

lemma map_of_py_dict: "map_of (py_dict ps) = items_dict ps"
  by (simp add: py_dict_def map_of_dict_update)

lemma items_dict_append: "items_dict (a @ u) = items_dict a ++ items_dict u"
  by (simp add: items_dict_def)

lemma items_dict_set_fields:
  "items_dict (set_fields (diff_updates df extra))
   = items_dict (slot (diff_add df)) ++ items_dict (slot (diff_update df)) ++ items_dict extra"
proof -
  let ?s = "dict_update (py_dict (slot (diff_add df) @ slot (diff_update df))) extra"
  have "distinct (map fst ?s)"
    by (simp add: py_dict_def distinct_dict_update)
  then have "items_dict ?s = map_of ?s"
    by (rule items_dict_distinct)
  then show ?thesis
    by (simp add: set_fields_diff_updates map_of_dict_update map_of_py_dict items_dict_append)
qed

lemma map_of_apply_diff:
  "map_of (apply_operators (diff_updates df extra) d)
   = (map_of d ++ items_dict (slot (diff_add df)) ++ items_dict (slot (diff_update df))
        ++ items_dict extra) |` (- set (slot (diff_delete df)))"
  by (simp add: apply_operators_def map_of_unset_fields map_of_dict_update
      items_dict_set_fields unset_names_diff_updates)


lemma diff_updates_keys:
  "list_all (\<lambda>k. k = ''$set'' \<or> k = ''$unset'') (map fst (diff_updates df extra))"
  by (auto simp: diff_updates_def Let_def split: option.splits)

lemma diff_updates_nonempty:
  assumes "slot (diff_add df) @ slot (diff_update df) @ extra \<noteq> [] \<or> slot (diff_delete df) \<noteq> []"
  shows "diff_updates df extra \<noteq> []"
proof -
  have "py_dict (slot (diff_add df) @ slot (diff_update df)) = []
        \<longleftrightarrow> slot (diff_add df) @ slot (diff_update df) = []"
    by (simp add: py_dict_def dict_update_nil_iff)
  with assms show ?thesis
    by (auto simp: diff_updates_def Let_def slot_def split: option.splits)
qed

lemma set_fields_keys:
  "fst ` set (set_fields (diff_updates df extra))
   = fst ` set (slot (diff_add df) @ slot (diff_update df) @ extra)"
  by (simp add: set_fields_diff_updates keys_dict_update py_dict_def image_Un Un_assoc)

lemma diff_operators_ok:
  assumes "set (slot (diff_delete df))
           \<inter> fst ` set (slot (diff_add df) @ slot (diff_update df) @ extra) = {}"
  shows "operators_ok (diff_updates df extra)"
proof -
  have "\<And>k. k \<in> fst ` set (set_fields (diff_updates df extra))
          \<Longrightarrow> k \<notin> set (unset_names (diff_updates df extra))"
    using assms unfolding set_fields_keys unset_names_diff_updates by blast
  then have "list_all (\<lambda>k. k \<notin> set (unset_names (diff_updates df extra)))
               (map fst (set_fields (diff_updates df extra)))"
    by (simp add: list_all_iff)
  with diff_updates_keys [of df extra] show ?thesis
    by (simp only: operators_ok_def simp_thms)
qed

lemma apply_diff_keeps_id:
  assumes "''_id'' \<notin> set (slot (diff_delete df))
                       \<union> fst ` set (slot (diff_add df) @ slot (diff_update df) @ extra)"
  shows "map_of (apply_operators (diff_updates df extra) d) ''_id'' = map_of d ''_id''"
proof -
  from assms have "items_dict (slot (diff_add df)) ''_id'' = None"
    "items_dict (slot (diff_update df)) ''_id'' = None" "items_dict extra ''_id'' = None"
    by (auto simp: items_dict_def map_of_eq_None_iff)
  with assms show ?thesis
    by (simp add: map_of_apply_diff restrict_map_def map_add_def)
qed

lemma find_has_id: "List.find (has_id i) ds = Some d \<Longrightarrow> has_id i d"
  by (auto simp: find_Some_iff)

text \<open>
  Claim C3. For a diff with \<open>_id\<close> = \<open>i\<close>, \<^verbatim>\<open>update_diff\<close> is one
  \<^verbatim>\<open>update_one\<close> without upsert on the document with that id: its \<open>$set\<close> is the
  dictionary of the \<open>add\<close> items, then the \<open>update\<close> items, then \<open>extra\<close>, and
  its \<open>$unset\<close> names the \<open>delete\<close> fields. When it returns, the count is 0 or 1,
  the collection has the same ids in the same places (no document is created), every
  document with another id is as before, a collection without the id is unchanged with
  count 0, and the document with the id holds its old fields overwritten by \<open>add\<close>,
  \<open>update\<close> and \<open>extra\<close>, minus the \<open>delete\<close> fields, the count being 1 exactly when
  this changed it. It returns whenever some slot or \<open>extra\<close> is not empty, no field
  is both written and deleted, and \<open>_id\<close> is not touched. The witness is the example
  of the claim: \<open>{_id: 1, y: 1, z: 3}\<close> becomes \<open>{_id: 1, x: 1, y: 2}\<close>.
\<close>

theorem update_diff_effect:
  assumes i: "diff_id df = Some i"
  shows "DocMongoBackend_update_diff c df extra = update_one c i (diff_updates df extra)
    \<and> set_fields (diff_updates df extra)
        = dict_update (py_dict (slot (diff_add df) @ slot (diff_update df))) extra
    \<and> set (unset_names (diff_updates df extra)) = set (slot (diff_delete df))
    \<and> (\<forall>c' n. DocMongoBackend_update_diff c df extra = Inr (c', n) \<longrightarrow>
          n \<le> 1
          \<and> map (\<lambda>d. map_of d ''_id'') (docs c') = map (\<lambda>d. map_of d ''_id'') (docs c)
          \<and> (\<forall>k < length (docs c). \<not> has_id i (docs c ! k) \<longrightarrow> docs c' ! k = docs c ! k)
          \<and> (find_one c i = None \<longrightarrow> c' = c \<and> n = 0)
          \<and> (\<forall>d. find_one c i = Some d \<longrightarrow>
                (\<exists>d'. find_one c' i = Some d'
                   \<and> map_of d' = (map_of d ++ items_dict (slot (diff_add df))
                                   ++ items_dict (slot (diff_update df)) ++ items_dict extra)
                                  |` (- set (slot (diff_delete df)))
                   \<and> n = (if d' = d then 0 else 1))))
    \<and> ((slot (diff_add df) @ slot (diff_update df) @ extra \<noteq> [] \<or> slot (diff_delete df) \<noteq> [])
         \<and> set (slot (diff_delete df))
             \<inter> fst ` set (slot (diff_add df) @ slot (diff_update df) @ extra) = {}
         \<and> ''_id'' \<notin> set (slot (diff_delete df))
                       \<union> fst ` set (slot (diff_add df) @ slot (diff_update df) @ extra)
         \<longrightarrow> (\<exists>c' n. DocMongoBackend_update_diff c df extra = Inr (c', n)))"
proof -
  let ?u = "diff_updates df extra"
  have a: "DocMongoBackend_update_diff c df extra = update_one c i ?u"
    by (simp add: DocMongoBackend_update_diff_def i)
  have d: "n \<le> 1
          \<and> map (\<lambda>d. map_of d ''_id'') (docs c') = map (\<lambda>d. map_of d ''_id'') (docs c)
          \<and> (\<forall>k < length (docs c). \<not> has_id i (docs c ! k) \<longrightarrow> docs c' ! k = docs c ! k)
          \<and> (find_one c i = None \<longrightarrow> c' = c \<and> n = 0)
          \<and> (\<forall>d. find_one c i = Some d \<longrightarrow>
                (\<exists>d'. find_one c' i = Some d'
                   \<and> map_of d' = (map_of d ++ items_dict (slot (diff_add df))
                                   ++ items_dict (slot (diff_update df)) ++ items_dict extra)
                                  |` (- set (slot (diff_delete df)))
                   \<and> n = (if d' = d then 0 else 1)))"
    if r: "update_one c i ?u = Inr (c', n)" for c' n
  proof (cases "find_one c i")
    case None
    with r have "c' = c" "n = 0"
      by (auto simp: update_one_def split: if_splits)
    with None show ?thesis by simp
  next
    case (Some d0)
    let ?d' = "apply_operators ?u d0"
    from r Some have id': "has_id i ?d'" and c': "c' = c\<lparr>docs := replace_first i ?d' (docs c)\<rparr>"
      and n: "n = (if ?d' = d0 then 0 else 1)"
      by (auto simp: update_one_def Let_def has_id_def split: if_splits)
    from Some have f: "List.find (has_id i) (docs c) = Some d0"
      by (simp add: find_one_def)
    have 1: "n \<le> 1" using n by simp
    have 2: "map (\<lambda>d. map_of d ''_id'') (docs c') = map (\<lambda>d. map_of d ''_id'') (docs c)"
      by (simp add: c' replace_first_ids [OF id'])
    have 3: "\<forall>k < length (docs c). \<not> has_id i (docs c ! k) \<longrightarrow> docs c' ! k = docs c ! k"
      by (simp add: c' replace_first_others)
    have 4: "find_one c' i = Some ?d'"
      by (simp add: c' find_one_def replace_first_find [OF f id'])
    from 1 2 3 4 n Some show ?thesis
      by (simp add: map_of_apply_diff)
  qed
  have e: "\<exists>c' n. update_one c i ?u = Inr (c', n)"
    if ne: "slot (diff_add df) @ slot (diff_update df) @ extra \<noteq> [] \<or> slot (diff_delete df) \<noteq> []"
    and dj: "set (slot (diff_delete df))
             \<inter> fst ` set (slot (diff_add df) @ slot (diff_update df) @ extra) = {}"
    and nid: "''_id'' \<notin> set (slot (diff_delete df))
                       \<union> fst ` set (slot (diff_add df) @ slot (diff_update df) @ extra)"
  proof (cases "find_one c i")
    case None
    with diff_updates_nonempty [OF ne] diff_operators_ok [OF dj] show ?thesis
      by (simp add: update_one_def)
  next
    case (Some d0)
    then have "has_id i d0"
      by (simp add: find_one_def find_has_id)
    with apply_diff_keeps_id [OF nid, of d0] have "map_of (apply_operators ?u d0) ''_id'' = Some i"
      by (simp add: has_id_def)
    with Some diff_updates_nonempty [OF ne] diff_operators_ok [OF dj] show ?thesis
      by (simp add: update_one_def Let_def)
  qed
  from a d e set_fields_diff_updates [of df extra] unset_names_diff_updates [of df extra]
  show ?thesis
    by (simp only: a) blast
qed


theorem update_diff_effect_witness:
  "diff_id \<lparr>diff_id = Some (PInt 1), diff_add = Some [(''x'', PInt 1)],
             diff_update = Some [(''y'', PInt 2)], diff_delete = Some [''z'']\<rparr> = Some (PInt 1)
   \<and> DocMongoBackend_update_diff
       \<lparr>docs = [[(''_id'', PInt 1), (''y'', PInt 1), (''z'', PInt 3)],
                [(''_id'', PInt 2), (''z'', PInt 9)]], oid_counter = 0\<rparr>
       \<lparr>diff_id = Some (PInt 1), diff_add = Some [(''x'', PInt 1)],
         diff_update = Some [(''y'', PInt 2)], diff_delete = Some [''z'']\<rparr> []
     = Inr (\<lparr>docs = [[(''_id'', PInt 1), (''y'', PInt 2), (''x'', PInt 1)],
                     [(''_id'', PInt 2), (''z'', PInt 9)]], oid_counter = 0\<rparr>, 1)
   \<and> (\<exists>d'. find_one
             \<lparr>docs = [[(''_id'', PInt 1), (''y'', PInt 2), (''x'', PInt 1)],
                      [(''_id'', PInt 2), (''z'', PInt 9)]], oid_counter = 0\<rparr> (PInt 1) = Some d'
          \<and> map_of d' = map_of [(''_id'', PInt 1), (''x'', PInt 1), (''y'', PInt 2)])"
proof -
  let ?c = "\<lparr>docs = [[(''_id'', PInt 1), (''y'', PInt 1), (''z'', PInt 3)],
                [(''_id'', PInt 2), (''z'', PInt 9)]], oid_counter = 0\<rparr>"
  let ?c' = "\<lparr>docs = [[(''_id'', PInt 1), (''y'', PInt 2), (''x'', PInt 1)],
                     [(''_id'', PInt 2), (''z'', PInt 9)]], oid_counter = 0\<rparr>"
  let ?df = "\<lparr>diff_id = Some (PInt 1), diff_add = Some [(''x'', PInt 1)],
             diff_update = Some [(''y'', PInt 2)], diff_delete = Some [''z'']\<rparr>"
  have i: "diff_id ?df = Some (PInt 1)"
    by simp
  have r: "DocMongoBackend_update_diff ?c ?df [] = Inr (?c', 1)"
    by (simp add: DocMongoBackend_update_diff_def diff_updates_def update_one_def py_dict_def
        dict_update_def operators_ok_def set_fields_def unset_names_def apply_operators_def
        unset_fields_def find_one_def has_id_def Let_def)
  have f: "find_one ?c (PInt 1) = Some [(''_id'', PInt 1), (''y'', PInt 1), (''z'', PInt 3)]"
    by (simp add: find_one_def has_id_def)
  from update_diff_effect [OF i, of ?c "[]"] r f obtain d' where
    d': "find_one ?c' (PInt 1) = Some d'"
    and m: "map_of d' = (map_of [(''_id'', PInt 1), (''y'', PInt 1), (''z'', PInt 3)]
              ++ items_dict (slot (diff_add ?df)) ++ items_dict (slot (diff_update ?df))
              ++ items_dict []) |` (- set (slot (diff_delete ?df)))"
    by blast
  from m have "map_of d' = map_of [(''_id'', PInt 1), (''x'', PInt 1), (''y'', PInt 2)]"
    by (auto simp: fun_eq_iff restrict_map_def map_add_def items_dict_def slot_def)
  with i r d' show ?thesis
    by blast
qed

section \<open>DocCouchDBBackend: finalize raises on buffered updates\<close>

lemma target_db_cache [simp]: "target_db (b\<lparr>doc_cache := c\<rparr>) = target_db b"
  by (simp add: target_db_def)

lemma py_dict_nonempty: "rs \<noteq> [] \<Longrightarrow> py_dict rs \<noteq> []"
  by (simp add: py_dict_def dict_update_nil_iff)

lemma finalize_nonempty_cache:
  "doc_cache b \<noteq> [] \<Longrightarrow> DocCouchDBBackend_finalize b = Inl AttributeError"
  by (simp add: DocCouchDBBackend_finalize_def homologene_trimming_def iteritems_def)

lemma finalize_returns_same: "DocCouchDBBackend_finalize b = Inr b2 \<Longrightarrow> b2 = b"
proof (cases "doc_cache b = []")
  case True
  assume "DocCouchDBBackend_finalize b = Inr b2"
  with True show ?thesis
    by (auto simp: DocCouchDBBackend_finalize_def split: sum.splits)
next
  case False
  assume "DocCouchDBBackend_finalize b = Inr b2"
  with finalize_nonempty_cache [OF False] show ?thesis
    by simp
qed

text \<open>
  Claim C1 fails on the code. For every backend whose database is there, every document
  \<open>d\<close> stored under \<open>i\<close> and every patch \<open>p\<close>: \<^verbatim>\<open>update(i, p)\<close> returns and
  leaves the server and its databases as they are, so \<^verbatim>\<open>get_from_id(i)\<close> before
  \<^verbatim>\<open>finalize\<close> returns \<open>d\<close> without \<open>p\<close>, as the claim has it. But the cache is
  not empty then, and \<^verbatim>\<open>finalize\<close> raises AttributeError in
  \<^verbatim>\<open>_homologene_trimming\<close>, before the upload: the patch never reaches the store.
\<close>

theorem finalize_raises_after_update:
  assumes db: "target_db b = Inr db" and d: "map_of (rows db) i = Some d"
  shows "\<exists>b1. DocCouchDBBackend_update b i p = Inr b1
          \<and> target_server b1 = target_server b
          \<and> DocCouchDBBackend_get_from_id b1 i = Inr d
          \<and> homologene_trimming finalize_species_li (doc_cache b1) = Inl AttributeError
          \<and> DocCouchDBBackend_finalize b1 = Inl AttributeError"
proof -
  let ?c0 = "if doc_cache b = [] then py_dict (rows db) else doc_cache b"
  from d have "rows db \<noteq> []"
    by auto
  then have c0: "?c0 \<noteq> []"
    by (simp add: py_dict_nonempty)
  obtain b1 where u: "DocCouchDBBackend_update b i p = Inr b1"
    and c1: "doc_cache b1 \<noteq> []" and srv: "target_server b1 = target_server b"
    and nm: "db_name b1 = db_name b"
  proof (cases "map_of ?c0 i")
    case None
    with db c0 have "DocCouchDBBackend_update b i p = Inr (b\<lparr>doc_cache := ?c0\<rparr>)"
      by (auto simp: DocCouchDBBackend_update_def)
    with c0 that [of "b\<lparr>doc_cache := ?c0\<rparr>"] show ?thesis
      by simp
  next
    case (Some current_doc)
    show ?thesis
    proof (cases "current_doc = []")
      case True
      with Some db c0 have "DocCouchDBBackend_update b i p = Inr (b\<lparr>doc_cache := ?c0\<rparr>)"
        by (auto simp: DocCouchDBBackend_update_def)
      with c0 that [of "b\<lparr>doc_cache := ?c0\<rparr>"] show ?thesis
        by simp
    next
      case False
      let ?c1 = "AList.update i (dict_update current_doc p) ?c0"
      from False Some db have "DocCouchDBBackend_update b i p = Inr (b\<lparr>doc_cache := ?c1\<rparr>)"
        by (auto simp: DocCouchDBBackend_update_def)
      with that [of "b\<lparr>doc_cache := ?c1\<rparr>"] show ?thesis
        by simp
    qed
  qed
  from db srv nm have "target_db b1 = Inr db"
    by (simp add: target_db_def)
  with d have g: "DocCouchDBBackend_get_from_id b1 i = Inr d"
    by (simp add: DocCouchDBBackend_get_from_id_def)
  from c1 have t: "homologene_trimming finalize_species_li (doc_cache b1) = Inl AttributeError"
    by (simp add: homologene_trimming_def iteritems_def)
  from c1 have f: "DocCouchDBBackend_finalize b1 = Inl AttributeError"
    by (rule finalize_nonempty_cache)
  from u srv g t f show ?thesis
    by blast
qed

theorem finalize_raises_after_update_witness:
  "target_db
     \<lparr>target_server = [(''genedoc'',
        \<lparr>rows = [(''g1'', [(''_id'', PStr ''g1''), (''symbol'', PStr ''CDK2'')]),
                 (''g2'', [(''_id'', PStr ''g2'')])], uuid_counter = 0\<rparr>)],
      db_name = ''genedoc'', doc_cache = []\<rparr>
   = Inr \<lparr>rows = [(''g1'', [(''_id'', PStr ''g1''), (''symbol'', PStr ''CDK2'')]),
                 (''g2'', [(''_id'', PStr ''g2'')])], uuid_counter = 0\<rparr>
   \<and> map_of (rows \<lparr>rows = [(''g1'', [(''_id'', PStr ''g1''), (''symbol'', PStr ''CDK2'')]),
                 (''g2'', [(''_id'', PStr ''g2'')])], uuid_counter = 0\<rparr>) ''g1''
     = Some [(''_id'', PStr ''g1''), (''symbol'', PStr ''CDK2'')]
   \<and> DocCouchDBBackend_update
     \<lparr>target_server = [(''genedoc'',
        \<lparr>rows = [(''g1'', [(''_id'', PStr ''g1''), (''symbol'', PStr ''CDK2'')]),
                 (''g2'', [(''_id'', PStr ''g2'')])], uuid_counter = 0\<rparr>)],
      db_name = ''genedoc'', doc_cache = []\<rparr>
     ''g1'' [(''x'', PInt 1)]
   = Inr \<lparr>target_server = [(''genedoc'',
        \<lparr>rows = [(''g1'', [(''_id'', PStr ''g1''), (''symbol'', PStr ''CDK2'')]),
                 (''g2'', [(''_id'', PStr ''g2'')])], uuid_counter = 0\<rparr>)],
      db_name = ''genedoc'',
      doc_cache = [(''g1'', [(''_id'', PStr ''g1''), (''symbol'', PStr ''CDK2''),
                             (''x'', PInt 1)]),
                   (''g2'', [(''_id'', PStr ''g2'')])]\<rparr>
   \<and> DocCouchDBBackend_get_from_id
     \<lparr>target_server = [(''genedoc'',
        \<lparr>rows = [(''g1'', [(''_id'', PStr ''g1''), (''symbol'', PStr ''CDK2'')]),
                 (''g2'', [(''_id'', PStr ''g2'')])], uuid_counter = 0\<rparr>)],
      db_name = ''genedoc'',
      doc_cache = [(''g1'', [(''_id'', PStr ''g1''), (''symbol'', PStr ''CDK2''),
                             (''x'', PInt 1)]),
                   (''g2'', [(''_id'', PStr ''g2'')])]\<rparr> ''g1''
   = Inr [(''_id'', PStr ''g1''), (''symbol'', PStr ''CDK2'')]
   \<and> DocCouchDBBackend_finalize
     \<lparr>target_server = [(''genedoc'',
        \<lparr>rows = [(''g1'', [(''_id'', PStr ''g1''), (''symbol'', PStr ''CDK2'')]),
                 (''g2'', [(''_id'', PStr ''g2'')])], uuid_counter = 0\<rparr>)],
      db_name = ''genedoc'',
      doc_cache = [(''g1'', [(''_id'', PStr ''g1''), (''symbol'', PStr ''CDK2''),
                             (''x'', PInt 1)]),
                   (''g2'', [(''_id'', PStr ''g2'')])]\<rparr>
   = Inl AttributeError"
proof -
  let ?b = "\<lparr>target_server = [(''genedoc'',
        \<lparr>rows = [(''g1'', [(''_id'', PStr ''g1''), (''symbol'', PStr ''CDK2'')]),
                 (''g2'', [(''_id'', PStr ''g2'')])], uuid_counter = 0\<rparr>)],
      db_name = ''genedoc'', doc_cache = []\<rparr>"
  let ?db = "\<lparr>rows = [(''g1'', [(''_id'', PStr ''g1''), (''symbol'', PStr ''CDK2'')]),
                 (''g2'', [(''_id'', PStr ''g2'')])], uuid_counter = 0\<rparr>"
  let ?d = "[(''_id'', PStr ''g1''), (''symbol'', PStr ''CDK2'')]"
  let ?b1 = "\<lparr>target_server = [(''genedoc'',
        \<lparr>rows = [(''g1'', [(''_id'', PStr ''g1''), (''symbol'', PStr ''CDK2'')]),
                 (''g2'', [(''_id'', PStr ''g2'')])], uuid_counter = 0\<rparr>)],
      db_name = ''genedoc'',
      doc_cache = [(''g1'', [(''_id'', PStr ''g1''), (''symbol'', PStr ''CDK2''),
                             (''x'', PInt 1)]),
                   (''g2'', [(''_id'', PStr ''g2'')])]\<rparr>"
  have db: "target_db ?b = Inr ?db"
    by (simp add: target_db_def)
  have d: "map_of (rows ?db) ''g1'' = Some ?d"
    by simp
  have u: "DocCouchDBBackend_update ?b ''g1'' [(''x'', PInt 1)] = Inr ?b1"
    by (simp add: DocCouchDBBackend_update_def target_db_def py_dict_def dict_update_def)
  from finalize_raises_after_update [OF db d, of "[(''x'', PInt 1)]"] u
  have "DocCouchDBBackend_get_from_id ?b1 ''g1'' = Inr ?d
        \<and> DocCouchDBBackend_finalize ?b1 = Inl AttributeError"
    by auto
  with db d u show ?thesis
    by simp
qed

section \<open>An update for a missing id creates nothing\<close>

lemma bulk_execute_absent:
  "list_all (\<lambda>op. find_one c (fst op) = None) ops \<Longrightarrow> bulk_execute False ops c m u = (c, m, u)"
  by (induction ops) auto

lemma bulk_ops_absent:
  "absent_ids c ds \<Longrightarrow>
   \<exists>ops. bulk_ops ds = Inr ops \<and> length ops = length ds
         \<and> list_all (\<lambda>op. find_one c (fst op) = None) ops"
  unfolding absent_ids_def
  by (induction ds) (auto split: option.splits)

lemma mongo_update_absent:
  assumes "ds \<noteq> []" "absent_ids c ds"
  shows "DocMongoBackend_update c ds False = Inr (c, 0)"
proof -
  from bulk_ops_absent [OF assms(2)] obtain ops where
    o: "bulk_ops ds = Inr ops" and l: "length ops = length ds"
    and a: "list_all (\<lambda>op. find_one c (fst op) = None) ops"
    by blast
  from l assms(1) have "ops \<noteq> []" by auto
  with o bulk_execute_absent [OF a, of 0 0] show ?thesis
    by (simp add: DocMongoBackend_update_def)
qed

lemma flush_queue_keys: "fst ` set (flush_queue q ds) = fst ` set ds"
proof (induction q arbitrary: ds)
  case Nil
  then show ?case by simp
next
  case (Cons a q)
  obtain i e where a: "a = (i, e)" by (cases a)
  show ?case
  proof (cases "map_of ds i")
    case None
    with Cons a show ?thesis by simp
  next
    case (Some d)
    then have "i \<in> fst ` set ds"
      by (meson domI domIff map_of_eq_None_iff)
    with Cons [of "AList.update i (dict_update d e) ds"] a Some show ?thesis
      by (auto simp: dom_update)
  qed
qed

lemma flush_queue_absent:
  "map_of ds i = None \<Longrightarrow> map_of (flush_queue q ds) i = None"
  by (simp add: map_of_eq_None_iff flush_queue_keys)

lemma couch_update_absent:
  assumes db: "target_db b = Inr db" and r: "map_of (rows db) i = None"
    and c: "map_of (doc_cache b) i = None"
  shows "\<exists>b1. DocCouchDBBackend_update b i p = Inr b1
      \<and> target_server b1 = target_server b \<and> db_name b1 = db_name b
      \<and> doc_cache b1 = (if doc_cache b = [] then py_dict (rows db) else doc_cache b)
      \<and> map_of (doc_cache b1) i = None
      \<and> DocCouchDBBackend_get_from_id b1 i = Inl ResourceNotFound"
proof -
  let ?cache = "if doc_cache b = [] then py_dict (rows db) else doc_cache b"
  have "items_dict (rows db) i = None"
    using r by (simp add: items_dict_def map_of_eq_None_iff)
  then have m: "map_of ?cache i = None"
    using c by (simp add: map_of_py_dict)
  have u: "DocCouchDBBackend_update b i p = Inr (b\<lparr>doc_cache := ?cache\<rparr>)"
    using db m by (auto simp: DocCouchDBBackend_update_def)
  have g: "DocCouchDBBackend_get_from_id (b\<lparr>doc_cache := ?cache\<rparr>) i = Inl ResourceNotFound"
    using db r by (simp add: DocCouchDBBackend_get_from_id_def)
  from u m g show ?thesis
    by simp
qed

lemma couch_finalize_absent:
  assumes db: "target_db b = Inr db" and r: "map_of (rows db) i = None"
    and f: "DocCouchDBBackend_finalize b = Inr b2"
  shows "DocCouchDBBackend_get_from_id b2 i = Inl ResourceNotFound"
proof -
  from f have "b2 = b"
    by (rule finalize_returns_same)
  with db r show ?thesis
    by (simp add: DocCouchDBBackend_get_from_id_def)
qed

text \<open>
  Claim C8. An update for an id that the backend does not hold returns and creates no
  document, in each backend. DocMemoryBackend: the backend is unchanged and
  \<^verbatim>\<open>get_from_id\<close> still raises KeyError. DocMongoBackend: \<^verbatim>\<open>update(docs)\<close> without
  upsert, for documents whose ids are all missing, leaves the collection unchanged and
  returns 0. DocESBackend, whose indexer is modelled from the spec: the documents of the
  index are unchanged and \<^verbatim>\<open>get_from_id\<close> finds nothing, before and after the
  flush. DocCouchDBBackend: the server is unchanged, the cache gets no entry for the
  id, \<^verbatim>\<open>get_from_id\<close> raises ResourceNotFound, and still does after a
  \<^verbatim>\<open>finalize\<close> that returns.
\<close>

theorem update_absent_id_is_noop:
  "(hashable i \<and> map_of (target_dict mb) i = None \<longrightarrow>
      DocMemoryBackend_update mb i p = Inr mb
      \<and> DocMemoryBackend_get_from_id mb i = Inl KeyError)
   \<and> (ds \<noteq> [] \<and> absent_ids c ds \<longrightarrow> DocMongoBackend_update c ds False = Inr (c, 0))
   \<and> (map_of (index_docs ix) i = None \<longrightarrow>
        (\<exists>ix'. DocESBackend_update ix i p = Inr ix'
           \<and> index_docs ix' = index_docs ix
           \<and> DocESBackend_get_from_id ix' i = None
           \<and> DocESBackend_get_from_id (ESIndexer_flush ix') i = None))
   \<and> (target_db cb = Inr db \<and> map_of (rows db) k = None \<and> map_of (doc_cache cb) k = None \<longrightarrow>
        (\<exists>cb1. DocCouchDBBackend_update cb k p = Inr cb1
           \<and> target_server cb1 = target_server cb
           \<and> map_of (doc_cache cb1) k = None
           \<and> DocCouchDBBackend_get_from_id cb1 k = Inl ResourceNotFound
           \<and> (doc_cache cb = [] \<and> store_ok db \<longrightarrow>
                (\<forall>cb2. DocCouchDBBackend_finalize cb1 = Inr cb2 \<longrightarrow>
                   DocCouchDBBackend_get_from_id cb2 k = Inl ResourceNotFound))))"
proof -
  have mem: "DocMemoryBackend_update mb i p = Inr mb
      \<and> DocMemoryBackend_get_from_id mb i = Inl KeyError"
    if "hashable i" "map_of (target_dict mb) i = None"
    using that by (simp add: DocMemoryBackend_update_def DocMemoryBackend_get_from_id_def)
  have mongo: "DocMongoBackend_update c ds False = Inr (c, 0)" if "ds \<noteq> []" "absent_ids c ds"
    using that by (rule mongo_update_absent)
  have es: "\<exists>ix'. DocESBackend_update ix i p = Inr ix'
           \<and> index_docs ix' = index_docs ix
           \<and> DocESBackend_get_from_id ix' i = None
           \<and> DocESBackend_get_from_id (ESIndexer_flush ix') i = None"
    if "map_of (index_docs ix) i = None"
    using that
    by (simp add: DocESBackend_update_def ESIndexer_update_bulk_def DocESBackend_get_from_id_def
        ESIndexer_get_def ESIndexer_flush_def flush_queue_absent)
  have couch: "\<exists>cb1. DocCouchDBBackend_update cb k p = Inr cb1
           \<and> target_server cb1 = target_server cb
           \<and> map_of (doc_cache cb1) k = None
           \<and> DocCouchDBBackend_get_from_id cb1 k = Inl ResourceNotFound
           \<and> (doc_cache cb = [] \<and> store_ok db \<longrightarrow>
                (\<forall>cb2. DocCouchDBBackend_finalize cb1 = Inr cb2 \<longrightarrow>
                   DocCouchDBBackend_get_from_id cb2 k = Inl ResourceNotFound))"
    if db: "target_db cb = Inr db" and r: "map_of (rows db) k = None"
      and ch: "map_of (doc_cache cb) k = None"
  proof -
    from couch_update_absent [OF db r ch, of p] obtain cb1 where
      u: "DocCouchDBBackend_update cb k p = Inr cb1"
      and s: "target_server cb1 = target_server cb" and n: "db_name cb1 = db_name cb"
      and c1: "doc_cache cb1 = (if doc_cache cb = [] then py_dict (rows db) else doc_cache cb)"
      and m: "map_of (doc_cache cb1) k = None"
      and g: "DocCouchDBBackend_get_from_id cb1 k = Inl ResourceNotFound"
      by blast
    from db s n have db1: "target_db cb1 = Inr db"
      by (simp add: target_db_def)
    have "DocCouchDBBackend_get_from_id cb2 k = Inl ResourceNotFound"
      if e: "doc_cache cb = []" and ok: "store_ok db"
        and f: "DocCouchDBBackend_finalize cb1 = Inr cb2" for cb2
      using couch_finalize_absent [OF db1 r f] .
    with u s m g show ?thesis
      by blast
  qed
  from mem mongo es couch show ?thesis
    by blast
qed


theorem update_absent_id_is_noop_witness:
  "DocMemoryBackend_update \<lparr>target_dict = [(PStr ''a'', [(''_id'', PStr ''a'')])], target_name = ''t''\<rparr> (PStr ''z'') [(''x'', PInt 1)]
     = Inr \<lparr>target_dict = [(PStr ''a'', [(''_id'', PStr ''a'')])], target_name = ''t''\<rparr>
   \<and> DocMemoryBackend_get_from_id \<lparr>target_dict = [(PStr ''a'', [(''_id'', PStr ''a'')])], target_name = ''t''\<rparr> (PStr ''z'') = Inl KeyError
   \<and> DocMongoBackend_update \<lparr>docs = [[(''_id'', PStr ''a'')]], oid_counter = 0\<rparr> [[(''_id'', PStr ''z''), (''x'', PInt 1)]] False
     = Inr (\<lparr>docs = [[(''_id'', PStr ''a'')]], oid_counter = 0\<rparr>, 0)
   \<and> DocESBackend_update
       \<lparr>conn = \<lparr>mappings = []\<rparr>, ES_INDEX_NAME = ''genes'', ES_INDEX_TYPE = ''gene'',
        doc_feeder = (\<lambda>a. Inr []), index_docs = [(PStr ''a'', [(''_id'', PStr ''a'')])],
        bulk_queue = []\<rparr> (PStr ''z'') [(''x'', PInt 1)]
     = Inr \<lparr>conn = \<lparr>mappings = []\<rparr>, ES_INDEX_NAME = ''genes'', ES_INDEX_TYPE = ''gene'',
        doc_feeder = (\<lambda>a. Inr []), index_docs = [(PStr ''a'', [(''_id'', PStr ''a'')])],
        bulk_queue = [(PStr ''z'', [(''x'', PInt 1)])]\<rparr>
   \<and> DocESBackend_get_from_id (ESIndexer_flush
       \<lparr>conn = \<lparr>mappings = []\<rparr>, ES_INDEX_NAME = ''genes'', ES_INDEX_TYPE = ''gene'',
        doc_feeder = (\<lambda>a. Inr []), index_docs = [(PStr ''a'', [(''_id'', PStr ''a'')])],
        bulk_queue = [(PStr ''z'', [(''x'', PInt 1)])]\<rparr>) (PStr ''z'') = None
   \<and> DocCouchDBBackend_update
       \<lparr>target_server = [(''genedoc'', \<lparr>rows = [(''a'', [(''_id'', PStr ''a'')])], uuid_counter = 0\<rparr>)],
        db_name = ''genedoc'', doc_cache = []\<rparr> ''z'' [(''x'', PInt 1)]
     = Inr \<lparr>target_server = [(''genedoc'', \<lparr>rows = [(''a'', [(''_id'', PStr ''a'')])], uuid_counter = 0\<rparr>)],
        db_name = ''genedoc'', doc_cache = [(''a'', [(''_id'', PStr ''a'')])]\<rparr>
   \<and> DocCouchDBBackend_get_from_id
       \<lparr>target_server = [(''genedoc'', \<lparr>rows = [(''a'', [(''_id'', PStr ''a'')])], uuid_counter = 0\<rparr>)],
        db_name = ''genedoc'', doc_cache = [(''a'', [(''_id'', PStr ''a'')])]\<rparr> ''z'' = Inl ResourceNotFound
   \<and> DocCouchDBBackend_update
       \<lparr>target_server = [(''genedoc'', \<lparr>rows = [], uuid_counter = 0\<rparr>)],
        db_name = ''genedoc'', doc_cache = []\<rparr> ''z'' [(''x'', PInt 1)]
     = Inr \<lparr>target_server = [(''genedoc'', \<lparr>rows = [], uuid_counter = 0\<rparr>)],
        db_name = ''genedoc'', doc_cache = []\<rparr>
   \<and> DocCouchDBBackend_finalize
       \<lparr>target_server = [(''genedoc'', \<lparr>rows = [], uuid_counter = 0\<rparr>)],
        db_name = ''genedoc'', doc_cache = []\<rparr>
     = Inr \<lparr>target_server = [(''genedoc'', \<lparr>rows = [], uuid_counter = 0\<rparr>)],
        db_name = ''genedoc'', doc_cache = []\<rparr>
   \<and> DocCouchDBBackend_get_from_id
       \<lparr>target_server = [(''genedoc'', \<lparr>rows = [], uuid_counter = 0\<rparr>)],
        db_name = ''genedoc'', doc_cache = []\<rparr> ''z'' = Inl ResourceNotFound"
proof -
  let ?edb = "\<lparr>rows = [], uuid_counter = 0\<rparr>"
  let ?eb = "\<lparr>target_server = [(''genedoc'', \<lparr>rows = [], uuid_counter = 0\<rparr>)],
        db_name = ''genedoc'', doc_cache = []\<rparr>"
  let ?mb = "\<lparr>target_dict = [(PStr ''a'', [(''_id'', PStr ''a'')])], target_name = ''t''\<rparr>"
  let ?c = "\<lparr>docs = [[(''_id'', PStr ''a'')]], oid_counter = 0\<rparr>"
  let ?ds = "[[(''_id'', PStr ''z''), (''x'', PInt 1)]]"
  let ?ix = "\<lparr>conn = \<lparr>mappings = []\<rparr>, ES_INDEX_NAME = ''genes'', ES_INDEX_TYPE = ''gene'',
        doc_feeder = (\<lambda>a. Inr []), index_docs = [(PStr ''a'', [(''_id'', PStr ''a'')])],
        bulk_queue = []\<rparr>"
  let ?ix1 = "\<lparr>conn = \<lparr>mappings = []\<rparr>, ES_INDEX_NAME = ''genes'', ES_INDEX_TYPE = ''gene'',
        doc_feeder = (\<lambda>a. Inr []), index_docs = [(PStr ''a'', [(''_id'', PStr ''a'')])],
        bulk_queue = [(PStr ''z'', [(''x'', PInt 1)])]\<rparr>"
  let ?db = "\<lparr>rows = [(''a'', [(''_id'', PStr ''a'')])], uuid_counter = 0\<rparr>"
  let ?cb = "\<lparr>target_server = [(''genedoc'', \<lparr>rows = [(''a'', [(''_id'', PStr ''a'')])], uuid_counter = 0\<rparr>)],
        db_name = ''genedoc'', doc_cache = []\<rparr>"
  let ?cb1 = "\<lparr>target_server = [(''genedoc'', \<lparr>rows = [(''a'', [(''_id'', PStr ''a'')])], uuid_counter = 0\<rparr>)],
        db_name = ''genedoc'', doc_cache = [(''a'', [(''_id'', PStr ''a'')])]\<rparr>"
  let ?p = "[(''x'', PInt 1)]"
  note T = update_absent_id_is_noop [where i = "PStr ''z''" and mb = ?mb and p = ?p and ds = ?ds
      and c = ?c and ix = ?ix and cb = ?cb and db = ?db and k = "''z''"]
  have h1: "hashable (PStr ''z'') \<and> map_of (target_dict ?mb) (PStr ''z'') = None"
    by simp
  have h2: "?ds \<noteq> [] \<and> absent_ids ?c ?ds"
    by (simp add: absent_ids_def find_one_def has_id_def)
  have h3: "map_of (index_docs ?ix) (PStr ''z'') = None"
    by simp
  have h4: "target_db ?cb = Inr ?db \<and> map_of (rows ?db) ''z'' = None
            \<and> map_of (doc_cache ?cb) ''z'' = None"
    by (simp add: target_db_def)
  have e1: "DocESBackend_update ?ix (PStr ''z'') ?p = Inr ?ix1"
    by (simp add: DocESBackend_update_def ESIndexer_update_bulk_def)
  have e2: "DocCouchDBBackend_update ?cb ''z'' ?p = Inr ?cb1"
    by (simp add: DocCouchDBBackend_update_def target_db_def py_dict_def dict_update_def)
  note E = update_absent_id_is_noop [where i = "PStr ''z''" and mb = ?mb and p = ?p and ds = ?ds
      and c = ?c and ix = ?ix and cb = ?eb and db = ?edb and k = "''z''"]
  have h6: "target_db ?eb = Inr ?edb \<and> map_of (rows ?edb) ''z'' = None
            \<and> map_of (doc_cache ?eb) ''z'' = None"
    by (simp add: target_db_def)
  have h7: "doc_cache ?eb = [] \<and> store_ok ?edb"
    by (simp add: store_ok_def)
  have e3: "DocCouchDBBackend_update ?eb ''z'' ?p = Inr ?eb"
    by (simp add: DocCouchDBBackend_update_def target_db_def py_dict_def dict_update_def)
  have e4: "DocCouchDBBackend_finalize ?eb = Inr ?eb"
    by (simp add: DocCouchDBBackend_finalize_def target_db_def)
  from T h1 have m: "DocMemoryBackend_update ?mb (PStr ''z'') ?p = Inr ?mb
      \<and> DocMemoryBackend_get_from_id ?mb (PStr ''z'') = Inl KeyError"
    by blast
  from T h2 have g: "DocMongoBackend_update ?c ?ds False = Inr (?c, 0)"
    by blast
  from T h3 e1 have es: "DocESBackend_get_from_id (ESIndexer_flush ?ix1) (PStr ''z'') = None"
    by auto
  from T h4 e2 have co: "DocCouchDBBackend_get_from_id ?cb1 ''z'' = Inl ResourceNotFound"
    by auto
  from E h6 h7 e3 e4 have fin: "DocCouchDBBackend_get_from_id ?eb ''z'' = Inl ResourceNotFound"
    by auto
  from m g es co fin e1 e2 e3 e4 show ?thesis
    by simp
qed

section \<open>DocESBackend: query does not raise\<close>

text \<open>
  Claim C7. For every indexer and every argument record: when the call of
  \<^verbatim>\<open>doc_feeder\<close> raises an exception, \<^verbatim>\<open>query\<close> returns nothing (\<open>None\<close>); when
  the call returns a sequence, \<^verbatim>\<open>query\<close> returns that sequence; no exception
  leaves \<^verbatim>\<open>query\<close>.
\<close>

theorem query_swallows_failure:
  "(\<forall>e. doc_feeder ix args = Inl e \<longrightarrow> DocESBackend_query ix args = Inr None)
   \<and> (\<forall>feeder. doc_feeder ix args = Inr feeder \<longrightarrow> DocESBackend_query ix args = Inr (Some feeder))
   \<and> (\<forall>e. DocESBackend_query ix args \<noteq> Inl e)"
  by (auto simp: DocESBackend_query_def split: sum.splits)

theorem query_swallows_failure_witness:
  "DocESBackend_query
     \<lparr>conn = \<lparr>mappings = []\<rparr>, ES_INDEX_NAME = ''genes'', ES_INDEX_TYPE = ''gene'',
      doc_feeder = (\<lambda>a. if fa_step a \<le> 0 then Inl (OtherException ''scroll failed'')
                         else Inr [[(''_id'', PStr ''a'')]]),
      index_docs = [], bulk_queue = []\<rparr>
     \<lparr>fa_query = PNone, fa_verbose = False, fa_step = 0, fa_scroll = ''10m'', fa_only_source = True\<rparr>
   = Inr None
   \<and> DocESBackend_query
     \<lparr>conn = \<lparr>mappings = []\<rparr>, ES_INDEX_NAME = ''genes'', ES_INDEX_TYPE = ''gene'',
      doc_feeder = (\<lambda>a. if fa_step a \<le> 0 then Inl (OtherException ''scroll failed'')
                         else Inr [[(''_id'', PStr ''a'')]]),
      index_docs = [], bulk_queue = []\<rparr>
     \<lparr>fa_query = PNone, fa_verbose = False, fa_step = 10000, fa_scroll = ''10m'', fa_only_source = True\<rparr>
   = Inr (Some [[(''_id'', PStr ''a'')]])"
proof -
  let ?ix = "\<lparr>conn = \<lparr>mappings = []\<rparr>, ES_INDEX_NAME = ''genes'', ES_INDEX_TYPE = ''gene'',
      doc_feeder = (\<lambda>a. if fa_step a \<le> 0 then Inl (OtherException ''scroll failed'')
                         else Inr [[(''_id'', PStr ''a'')]]),
      index_docs = [], bulk_queue = []\<rparr>"
  let ?bad = "\<lparr>fa_query = PNone, fa_verbose = False, fa_step = 0, fa_scroll = ''10m'', fa_only_source = True\<rparr>"
  let ?good = "\<lparr>fa_query = PNone, fa_verbose = False, fa_step = 10000, fa_scroll = ''10m'', fa_only_source = True\<rparr>"
  have b: "doc_feeder ?ix ?bad = Inl (OtherException ''scroll failed'')"
    by simp
  have g: "doc_feeder ?ix ?good = Inr [[(''_id'', PStr ''a'')]]"
    by simp
  from query_swallows_failure [of ?ix ?bad] b have 1: "DocESBackend_query ?ix ?bad = Inr None"
    by blast
  from query_swallows_failure [of ?ix ?good] g
  have 2: "DocESBackend_query ?ix ?good = Inr (Some [[(''_id'', PStr ''a'')]])"
    by blast
  from 1 2 show ?thesis
    by simp
qed

section \<open>Dropping a target that is not there\<close>

text \<open>
  Claim C9. \<^verbatim>\<open>drop\<close> returns in every backend, also when there is nothing to drop.
  DocMemoryBackend and DocMongoBackend: an empty target stays as it is. DocESBackend:
  for a mapping that does not exist \<open>get_mapping\<close> raises IndexMissingException,
  \<^verbatim>\<open>drop\<close> catches it and returns with the indexer as it was. DocCouchDBBackend:
  for a database that does not exist the server's delete raises ResourceNotFound,
  \<^verbatim>\<open>drop\<close> catches it and returns with the backend as it was. After any
  \<^verbatim>\<open>drop\<close> the target is gone.
\<close>

theorem drop_missing_target_returns:
  "DocMemoryBackend_drop mb = Inr (mb\<lparr>target_dict := []\<rparr>)
   \<and> (target_dict mb = [] \<longrightarrow> DocMemoryBackend_drop mb = Inr mb)
   \<and> DocMongoBackend_drop c = Inr (c\<lparr>docs := []\<rparr>)
   \<and> (docs c = [] \<longrightarrow> DocMongoBackend_drop c = Inr c)
   \<and> ((ES_INDEX_NAME ix, ES_INDEX_TYPE ix) \<notin> set (mappings (conn ix)) \<longrightarrow>
        get_mapping (conn ix) (ES_INDEX_TYPE ix) (ES_INDEX_NAME ix) = Inl IndexMissingException
        \<and> DocESBackend_drop ix = Inr ix)
   \<and> (\<exists>ix'. DocESBackend_drop ix = Inr ix'
          \<and> (ES_INDEX_NAME ix, ES_INDEX_TYPE ix) \<notin> set (mappings (conn ix')))
   \<and> (map_of (target_server cb) (db_name cb) = None \<longrightarrow>
        server_delete (target_server cb) (db_name cb) = Inl ResourceNotFound
        \<and> DocCouchDBBackend_drop cb = Inr cb)
   \<and> (\<exists>cb'. DocCouchDBBackend_drop cb = Inr cb'
          \<and> map_of (target_server cb') (db_name cb') = None)"
proof -
  have mem: "DocMemoryBackend_drop mb = Inr (mb\<lparr>target_dict := []\<rparr>)"
    by (simp add: DocMemoryBackend_drop_def)
  have mem0: "target_dict mb = [] \<Longrightarrow> DocMemoryBackend_drop mb = Inr mb"
    by (simp add: DocMemoryBackend_drop_def)
  have mongo: "DocMongoBackend_drop c = Inr (c\<lparr>docs := []\<rparr>)"
    by (simp add: DocMongoBackend_drop_def)
  have mongo0: "docs c = [] \<Longrightarrow> DocMongoBackend_drop c = Inr c"
    by (simp add: DocMongoBackend_drop_def)
  have es0: "get_mapping (conn ix) (ES_INDEX_TYPE ix) (ES_INDEX_NAME ix) = Inl IndexMissingException
        \<and> DocESBackend_drop ix = Inr ix"
    if "(ES_INDEX_NAME ix, ES_INDEX_TYPE ix) \<notin> set (mappings (conn ix))"
    using that by (simp add: DocESBackend_drop_def get_mapping_def)
  have es: "\<exists>ix'. DocESBackend_drop ix = Inr ix'
          \<and> (ES_INDEX_NAME ix, ES_INDEX_TYPE ix) \<notin> set (mappings (conn ix'))"
    by (simp add: DocESBackend_drop_def get_mapping_def delete_mapping_def)
  have couch0: "server_delete (target_server cb) (db_name cb) = Inl ResourceNotFound
        \<and> DocCouchDBBackend_drop cb = Inr cb"
    if "map_of (target_server cb) (db_name cb) = None"
    using that by (simp add: DocCouchDBBackend_drop_def server_delete_def)
  have couch: "\<exists>cb'. DocCouchDBBackend_drop cb = Inr cb'
          \<and> map_of (target_server cb') (db_name cb') = None"
    by (cases "map_of (target_server cb) (db_name cb)")
      (simp_all add: DocCouchDBBackend_drop_def server_delete_def delete_conv')
  from mem mem0 mongo mongo0 es0 es couch0 couch show ?thesis
    by blast
qed


theorem drop_missing_target_returns_witness:
  "DocMemoryBackend_drop \<lparr>target_dict = [], target_name = ''t''\<rparr> = Inr \<lparr>target_dict = [], target_name = ''t''\<rparr>
   \<and> DocMongoBackend_drop \<lparr>docs = [], oid_counter = 0\<rparr> = Inr \<lparr>docs = [], oid_counter = 0\<rparr>
   \<and> DocESBackend_drop
       \<lparr>conn = \<lparr>mappings = [(''other'', ''gene'')]\<rparr>, ES_INDEX_NAME = ''genes'',
        ES_INDEX_TYPE = ''gene'', doc_feeder = (\<lambda>a. Inr []), index_docs = [], bulk_queue = []\<rparr>
     = Inr \<lparr>conn = \<lparr>mappings = [(''other'', ''gene'')]\<rparr>, ES_INDEX_NAME = ''genes'',
        ES_INDEX_TYPE = ''gene'', doc_feeder = (\<lambda>a. Inr []), index_docs = [], bulk_queue = []\<rparr>
   \<and> DocCouchDBBackend_drop
       \<lparr>target_server = [(''other'', \<lparr>rows = [], uuid_counter = 0\<rparr>)],
        db_name = ''genedoc'', doc_cache = []\<rparr>
     = Inr \<lparr>target_server = [(''other'', \<lparr>rows = [], uuid_counter = 0\<rparr>)],
        db_name = ''genedoc'', doc_cache = []\<rparr>"
proof -
  let ?mb = "\<lparr>target_dict = [], target_name = ''t''\<rparr>"
  let ?c = "\<lparr>docs = [], oid_counter = 0\<rparr>"
  let ?ix = "\<lparr>conn = \<lparr>mappings = [(''other'', ''gene'')]\<rparr>, ES_INDEX_NAME = ''genes'',
        ES_INDEX_TYPE = ''gene'', doc_feeder = (\<lambda>a. Inr []), index_docs = [], bulk_queue = []\<rparr>"
  let ?cb = "\<lparr>target_server = [(''other'', \<lparr>rows = [], uuid_counter = 0\<rparr>)],
        db_name = ''genedoc'', doc_cache = []\<rparr>"
  note T = drop_missing_target_returns [of ?mb ?c ?ix ?cb]
  have h1: "target_dict ?mb = []"
    by simp
  have h2: "docs ?c = []"
    by simp
  have h3: "(ES_INDEX_NAME ?ix, ES_INDEX_TYPE ?ix) \<notin> set (mappings (conn ?ix))"
    by simp
  have h4: "map_of (target_server ?cb) (db_name ?cb) = None"
    by simp
  from T h1 have 1: "DocMemoryBackend_drop ?mb = Inr ?mb" by blast
  from T h2 have 2: "DocMongoBackend_drop ?c = Inr ?c" by blast
  from T h3 have 3: "DocESBackend_drop ?ix = Inr ?ix" by blast
  from T h4 have 4: "DocCouchDBBackend_drop ?cb = Inr ?cb" by blast
  from 1 2 3 4 show ?thesis
    by (simp only: simp_thms)
qed

end
